theory Spec2Isabelle
  imports Main "HOL-Library.Word"
begin

section \<open>Basic types of the wrapper and of its host\<close>

text \<open>
  The wrapper (\<^verbatim>\<open>plugins/wasm-go/pkg/wrapper/plugin_wrapper.go\<close>) sits between the
  proxy-wasm host and the callbacks of a plugin author. Byte slices and Go strings are
  \<open>string\<close>s. A Go \<^verbatim>\<open>error\<close> is \<open>error option\<close> (\<open>None\<close> is \<^verbatim>\<open>nil\<close>); the one error
  value the code compares against, \<^verbatim>\<open>types.ErrorStatusNotFound\<close>, has a constructor of
  its own.
\<close>

type_synonym bytes = string

datatype error = ErrorStatusNotFound | OtherError string

datatype Action = ActionContinue | ActionPause


text \<open>
  The logger is an interface value. \<^verbatim>\<open>NewCommonVmCtx\<close> seeds \<^verbatim>\<open>DefaultLog{pluginName}\<close>;
  \<^verbatim>\<open>WithLogger\<close> installs any other one. A log call is recorded by its level and its
  format string (the arguments are not rendered). A log call without a logger is a nil
  dereference; the constructor is modelled with that case, the other functions for a
  context that has a logger.
\<close>

datatype Log = DefaultLog string | CustomLog string

datatype log_level = LevelCritical | LevelError | LevelWarn | LevelInfo

text \<open>
  Go's \<^verbatim>\<open>int\<close> has the width of the build target (\<^verbatim>\<open>strconv.IntSize\<close>, 32 on wasm32);
  \<open>go_int w\<close> wraps a mathematical integer into the signed \<open>w\<close>-bit range, as Go's \<^verbatim>\<open>+=\<close>
  does. \<^verbatim>\<open>int64\<close> values wrap at 64 bits.
\<close>

definition go_int :: "nat \<Rightarrow> int \<Rightarrow> int" where
  "go_int w x = signed_take_bit (w - 1) x"

definition int64 :: "int \<Rightarrow> int" where
  "int64 x = signed_take_bit 63 x"

text \<open>
  What a handler does that is visible outside it: the log lines it writes, the host calls
  it makes itself, and the user callbacks it invokes, in the order of execution.
\<close>

datatype 'cfg event =
    LogLine log_level string
  | HostGetHttpRequestHeader string
  | HostSetProperty "string list" bytes
  | HostGetProperty "string list"
  | HostGetHttpRequestBody int int
  | HostReplaceHttpRequestBody bytes
  | HostGetHttpResponseBody int int
  | HostReplaceHttpResponseBody bytes
  | HostGetPluginConfiguration
  | HostSetTickPeriodMilliSeconds nat
  | UserOnHttpRequestHeaders 'cfg
  | UserOnHttpRequestBody 'cfg bytes
  | UserOnHttpStreamingRequestBody 'cfg bytes bool
  | UserOnHttpResponseHeaders 'cfg
  | UserOnHttpResponseBody 'cfg bytes
  | UserOnHttpStreamingResponseBody 'cfg bytes bool
  | UserOnHttpStreamDone 'cfg

fun is_user_callback :: "'cfg event \<Rightarrow> bool" where
  "is_user_callback (UserOnHttpRequestHeaders _) = True"
| "is_user_callback (UserOnHttpRequestBody _ _) = True"
| "is_user_callback (UserOnHttpStreamingRequestBody _ _ _) = True"
| "is_user_callback (UserOnHttpResponseHeaders _) = True"
| "is_user_callback (UserOnHttpResponseBody _ _) = True"
| "is_user_callback (UserOnHttpStreamingResponseBody _ _ _) = True"
| "is_user_callback (UserOnHttpStreamDone _) = True"
| "is_user_callback _ = False"

text \<open>
  The answers of the host, and of the helpers of the package that are not part of this
  file (\<^verbatim>\<open>GetMatchConfig\<close> of the embedded rule matcher, \<^verbatim>\<open>IsBinaryRequestBody\<close>,
  \<^verbatim>\<open>IsBinaryResponseBody\<close>), while one signal is handled. A Go call returning
  \<^verbatim>\<open>(value, err)\<close> answers with a pair.
\<close>

record 'cfg host =
  intSize :: nat
  GetHttpRequestHeader :: "string \<Rightarrow> string \<times> error option"
  GetMatchConfig :: "'cfg option \<times> error option"
  IsBinaryRequestBody :: bool
  IsBinaryResponseBody :: bool
  GetHttpRequestBody :: "int \<Rightarrow> int \<Rightarrow> bytes \<times> error option"
  ReplaceHttpRequestBody :: "bytes \<Rightarrow> error option"
  GetHttpResponseBody :: "int \<Rightarrow> int \<Rightarrow> bytes \<times> error option"
  ReplaceHttpResponseBody :: "bytes \<Rightarrow> error option"

section \<open>The exchange context\<close>

text \<open>
  \<^verbatim>\<open>CommonHttpCtx\<close>. The back reference \<^verbatim>\<open>plugin\<close> is passed to the handlers as an argument
  of its own; \<^verbatim>\<open>config\<close> is a pointer, \<open>None\<close> is \<^verbatim>\<open>nil\<close>. The values of the two maps are
  \<^verbatim>\<open>interface{}\<close>, here the type \<open>'v\<close>.
\<close>

record ('cfg, 'v) CommonHttpCtx =
  config :: "'cfg option"
  needRequestBody :: bool
  needResponseBody :: bool
  streamingRequestBody :: bool
  streamingResponseBody :: bool
  requestBodySize :: int
  responseBodySize :: int
  contextID :: "32 word"
  userContext :: "string \<rightharpoonup> 'v"
  userAttribute :: "string \<rightharpoonup> 'v"

text \<open>The methods of \<^verbatim>\<open>HttpContext\<close> that change the context.\<close>

definition SetContext :: "string \<Rightarrow> 'v \<Rightarrow> ('cfg, 'v) CommonHttpCtx \<Rightarrow> ('cfg, 'v) CommonHttpCtx" where
  "SetContext key v ctx = ctx\<lparr>userContext := (userContext ctx)(key \<mapsto> v)\<rparr>"

definition GetContext :: "string \<Rightarrow> ('cfg, 'v) CommonHttpCtx \<Rightarrow> 'v option" where
  "GetContext key ctx = userContext ctx key"

definition SetUserAttribute :: "string \<Rightarrow> 'v \<Rightarrow> ('cfg, 'v) CommonHttpCtx \<Rightarrow> ('cfg, 'v) CommonHttpCtx" where
  "SetUserAttribute key v ctx = ctx\<lparr>userAttribute := (userAttribute ctx)(key \<mapsto> v)\<rparr>"

definition GetUserAttribute :: "string \<Rightarrow> ('cfg, 'v) CommonHttpCtx \<Rightarrow> 'v option" where
  "GetUserAttribute key ctx = userAttribute ctx key"

definition DontReadRequestBody :: "('cfg, 'v) CommonHttpCtx \<Rightarrow> ('cfg, 'v) CommonHttpCtx" where
  "DontReadRequestBody ctx = ctx\<lparr>needRequestBody := False\<rparr>"

definition DontReadResponseBody :: "('cfg, 'v) CommonHttpCtx \<Rightarrow> ('cfg, 'v) CommonHttpCtx" where
  "DontReadResponseBody ctx = ctx\<lparr>needResponseBody := False\<rparr>"

definition BufferRequestBody :: "('cfg, 'v) CommonHttpCtx \<Rightarrow> ('cfg, 'v) CommonHttpCtx" where
  "BufferRequestBody ctx = ctx\<lparr>streamingRequestBody := False\<rparr>"

definition BufferResponseBody :: "('cfg, 'v) CommonHttpCtx \<Rightarrow> ('cfg, 'v) CommonHttpCtx" where
  "BufferResponseBody ctx = ctx\<lparr>streamingResponseBody := False\<rparr>"

text \<open>
  A user callback receives the context through the interface \<^verbatim>\<open>HttpContext\<close>: the fields
  are unexported, so all it can do to the context is call the methods above, any number of
  times in any order. A callback is therefore a function of what it can read (the host,
  the context, the configuration, the payload) that returns its result and the list of
  context methods it called. The other methods of the interface (\<^verbatim>\<open>Scheme\<close>, \<^verbatim>\<open>Host\<close>,
  \<^verbatim>\<open>Path\<close>, \<^verbatim>\<open>Method\<close>, the getters, the log and trace exports, \<^verbatim>\<open>DisableReroute\<close>, the
  buffer limits) leave the context as it is.
\<close>

datatype 'v ctx_call =
    CallSetContext string 'v
  | CallSetUserAttribute string 'v
  | CallDontReadRequestBody
  | CallDontReadResponseBody
  | CallBufferRequestBody
  | CallBufferResponseBody

fun apply_call :: "'v ctx_call \<Rightarrow> ('cfg, 'v) CommonHttpCtx \<Rightarrow> ('cfg, 'v) CommonHttpCtx" where
  "apply_call (CallSetContext k v) ctx = SetContext k v ctx"
| "apply_call (CallSetUserAttribute k v) ctx = SetUserAttribute k v ctx"
| "apply_call CallDontReadRequestBody ctx = DontReadRequestBody ctx"
| "apply_call CallDontReadResponseBody ctx = DontReadResponseBody ctx"
| "apply_call CallBufferRequestBody ctx = BufferRequestBody ctx"
| "apply_call CallBufferResponseBody ctx = BufferResponseBody ctx"

definition apply_calls :: "'v ctx_call list \<Rightarrow> ('cfg, 'v) CommonHttpCtx \<Rightarrow> ('cfg, 'v) CommonHttpCtx" where
  "apply_calls cs ctx = fold apply_call cs ctx"

type_synonym ('cfg, 'v) onHttpHeadersFunc =
  "'cfg host \<Rightarrow> ('cfg, 'v) CommonHttpCtx \<Rightarrow> 'cfg \<Rightarrow> Action \<times> 'v ctx_call list"

type_synonym ('cfg, 'v) onHttpBodyFunc =
  "'cfg host \<Rightarrow> ('cfg, 'v) CommonHttpCtx \<Rightarrow> 'cfg \<Rightarrow> bytes \<Rightarrow> Action \<times> 'v ctx_call list"

type_synonym ('cfg, 'v) onHttpStreamingBodyFunc =
  "'cfg host \<Rightarrow> ('cfg, 'v) CommonHttpCtx \<Rightarrow> 'cfg \<Rightarrow> bytes \<Rightarrow> bool \<Rightarrow> bytes \<times> 'v ctx_call list"

type_synonym ('cfg, 'v) onHttpStreamDoneFunc =
  "'cfg host \<Rightarrow> ('cfg, 'v) CommonHttpCtx \<Rightarrow> 'cfg \<Rightarrow> 'v ctx_call list"

section \<open>Tick entries and the plugin-wide contexts\<close>

text \<open>
  \<^verbatim>\<open>TickFuncEntry\<close>: the two timestamps are \<^verbatim>\<open>int64\<close> milliseconds; \<open>'f\<close> is the type of
  the registered \<^verbatim>\<open>func()\<close> values.
\<close>

record 'f TickFuncEntry =
  lastExecuted :: int
  tickPeriod :: int
  tickFunc :: 'f


text \<open>
  A configuration parser gets the structured data and the configuration to fill, and may
  register tick functions, so it also transforms \<^verbatim>\<open>globalOnTickFuncs\<close>.
  \<^verbatim>\<open>gjson.Result\<close> is its zero value or the result of \<^verbatim>\<open>gjson.ParseBytes\<close>.
\<close>

datatype gjson_Result = ZeroResult | ParseBytes bytes

type_synonym ('cfg, 'f) ParseConfigFunc =
  "gjson_Result \<Rightarrow> 'cfg \<Rightarrow> 'f TickFuncEntry list \<Rightarrow> error option \<times> 'cfg \<times> 'f TickFuncEntry list"

type_synonym ('cfg, 'f) ParseRuleConfigFunc =
  "gjson_Result \<Rightarrow> 'cfg \<Rightarrow> 'cfg \<Rightarrow> 'f TickFuncEntry list \<Rightarrow> error option \<times> 'cfg \<times> 'f TickFuncEntry list"

record ('cfg, 'v, 'f) CommonVmCtx =
  pluginName :: string
  log :: "Log option"
  hasCustomConfig :: bool
  parseConfig :: "('cfg, 'f) ParseConfigFunc option"
  parseRuleConfig :: "('cfg, 'f) ParseRuleConfigFunc option"
  onHttpRequestHeaders :: "('cfg, 'v) onHttpHeadersFunc option"
  onHttpRequestBody :: "('cfg, 'v) onHttpBodyFunc option"
  onHttpStreamingRequestBody :: "('cfg, 'v) onHttpStreamingBodyFunc option"
  onHttpResponseHeaders :: "('cfg, 'v) onHttpHeadersFunc option"
  onHttpResponseBody :: "('cfg, 'v) onHttpBodyFunc option"
  onHttpStreamingResponseBody :: "('cfg, 'v) onHttpStreamingBodyFunc option"
  onHttpStreamDone :: "('cfg, 'v) onHttpStreamDoneFunc option"

text \<open>
  \<^verbatim>\<open>CommonPluginCtx\<close>: \<open>ruleMatcher\<close> is the state of the embedded
  \<^verbatim>\<open>matcher.RuleMatcher\<close>, of a type \<open>'m\<close> left open.
\<close>

record ('cfg, 'v, 'f, 'm) CommonPluginCtx =
  ruleMatcher :: 'm
  vm :: "('cfg, 'v, 'f) CommonVmCtx"
  onTickFuncs :: "'f TickFuncEntry list"

definition NewPluginContext :: "'m \<Rightarrow> ('cfg, 'v, 'f) CommonVmCtx \<Rightarrow> ('cfg, 'v, 'f, 'm) CommonPluginCtx" where
  "NewPluginContext zeroMatcher ctx = \<lparr>ruleMatcher = zeroMatcher, vm = ctx, onTickFuncs = []\<rparr>"

section \<open>Creating an exchange context\<close>

definition NewHttpContext :: "('cfg, 'v, 'f, 'm) CommonPluginCtx \<Rightarrow> 32 word \<Rightarrow> ('cfg, 'v) CommonHttpCtx" where
  "NewHttpContext ctx cid =
     (let httpCtx = \<lparr>config = None, needRequestBody = False, needResponseBody = False,
                     streamingRequestBody = False, streamingResponseBody = False,
                     requestBodySize = 0, responseBodySize = 0, contextID = cid,
                     userContext = Map.empty, userAttribute = Map.empty\<rparr>;
          httpCtx = (if onHttpRequestBody (vm ctx) \<noteq> None \<or> onHttpStreamingRequestBody (vm ctx) \<noteq> None
                     then httpCtx\<lparr>needRequestBody := True\<rparr> else httpCtx);
          httpCtx = (if onHttpResponseBody (vm ctx) \<noteq> None \<or> onHttpStreamingResponseBody (vm ctx) \<noteq> None
                     then httpCtx\<lparr>needResponseBody := True\<rparr> else httpCtx);
          httpCtx = (if onHttpStreamingRequestBody (vm ctx) \<noteq> None
                     then httpCtx\<lparr>streamingRequestBody := True\<rparr> else httpCtx);
          httpCtx = (if onHttpStreamingResponseBody (vm ctx) \<noteq> None
                     then httpCtx\<lparr>streamingResponseBody := True\<rparr> else httpCtx)
      in httpCtx)"

section \<open>The handlers of the phase signals\<close>

text \<open>
  Each handler takes the answers of the host for this signal, the plugin context and the
  exchange context, and returns the action for the host, the exchange context as the
  handler and the callback leave it, and the events in the order of execution. The
  callback is invoked with the context as it is at the call.
\<close>

definition OnHttpRequestHeaders ::
  "'cfg host \<Rightarrow> ('cfg, 'v, 'f, 'm) CommonPluginCtx \<Rightarrow> ('cfg, 'v) CommonHttpCtx \<Rightarrow> int \<Rightarrow> bool
     \<Rightarrow> Action \<times> ('cfg, 'v) CommonHttpCtx \<times> 'cfg event list" where
  "OnHttpRequestHeaders h plugin ctx numHeaders endOfStream =
     (let (requestID, _) = GetHttpRequestHeader h ''x-request-id'';
          evs = [HostGetHttpRequestHeader ''x-request-id'', HostSetProperty [''x_request_id''] requestID];
          (cfg, err) = GetMatchConfig h
      in if err \<noteq> None then
           (ActionContinue, ctx, evs @ [LogLine LevelError ''get match config failed, err:%v''])
         else case cfg of
           None \<Rightarrow> (ActionContinue, ctx, evs)
         | Some c \<Rightarrow>
             (let ctx = ctx\<lparr>config := Some c\<rparr>;
                  ctx = (if IsBinaryRequestBody h then ctx\<lparr>needRequestBody := False\<rparr> else ctx)
              in case onHttpRequestHeaders (vm plugin) of
                   None \<Rightarrow> (ActionContinue, ctx, evs)
                 | Some f \<Rightarrow>
                     (let (a, calls) = f h ctx c
                      in (a, apply_calls calls ctx, evs @ [UserOnHttpRequestHeaders c]))))"

definition OnHttpRequestBody ::
  "'cfg host \<Rightarrow> ('cfg, 'v, 'f, 'm) CommonPluginCtx \<Rightarrow> ('cfg, 'v) CommonHttpCtx \<Rightarrow> int \<Rightarrow> bool
     \<Rightarrow> Action \<times> ('cfg, 'v) CommonHttpCtx \<times> 'cfg event list" where
  "OnHttpRequestBody h plugin ctx bodySize endOfStream =
     (case config ctx of
        None \<Rightarrow> (ActionContinue, ctx, [])
      | Some c \<Rightarrow>
          if \<not> needRequestBody ctx then (ActionContinue, ctx, [])
          else if onHttpStreamingRequestBody (vm plugin) \<noteq> None \<and> streamingRequestBody ctx then
            (let (chunk, _) = GetHttpRequestBody h 0 bodySize;
                 (modifiedChunk, calls) =
                    the (onHttpStreamingRequestBody (vm plugin)) h ctx c chunk endOfStream;
                 ctx = apply_calls calls ctx;
                 err = ReplaceHttpRequestBody h modifiedChunk;
                 evs = [HostGetHttpRequestBody 0 bodySize,
                        UserOnHttpStreamingRequestBody c chunk endOfStream,
                        HostReplaceHttpRequestBody modifiedChunk]
             in if err \<noteq> None then
                  (ActionContinue, ctx, evs @ [LogLine LevelWarn ''replace request body chunk failed: %v''])
                else (ActionContinue, ctx, evs))
          else if onHttpRequestBody (vm plugin) \<noteq> None then
            (let ctx = ctx\<lparr>requestBodySize := go_int (intSize h) (requestBodySize ctx + bodySize)\<rparr>
             in if \<not> endOfStream then (ActionPause, ctx, [])
                else
                  (let (body, err) = GetHttpRequestBody h 0 (requestBodySize ctx);
                       evs = [HostGetHttpRequestBody 0 (requestBodySize ctx)]
                   in if err \<noteq> None then
                        (ActionContinue, ctx, evs @ [LogLine LevelWarn ''get request body failed: %v''])
                      else
                        (let (a, calls) = the (onHttpRequestBody (vm plugin)) h ctx c body
                         in (a, apply_calls calls ctx, evs @ [UserOnHttpRequestBody c body]))))
          else (ActionContinue, ctx, []))"

definition OnHttpResponseHeaders ::
  "'cfg host \<Rightarrow> ('cfg, 'v, 'f, 'm) CommonPluginCtx \<Rightarrow> ('cfg, 'v) CommonHttpCtx \<Rightarrow> int \<Rightarrow> bool
     \<Rightarrow> Action \<times> ('cfg, 'v) CommonHttpCtx \<times> 'cfg event list" where
  "OnHttpResponseHeaders h plugin ctx numHeaders endOfStream =
     (case config ctx of
        None \<Rightarrow> (ActionContinue, ctx, [])
      | Some c \<Rightarrow>
          (let ctx = (if IsBinaryResponseBody h then ctx\<lparr>needResponseBody := False\<rparr> else ctx)
           in case onHttpResponseHeaders (vm plugin) of
                None \<Rightarrow> (ActionContinue, ctx, [])
              | Some f \<Rightarrow>
                  (let (a, calls) = f h ctx c
                   in (a, apply_calls calls ctx, [UserOnHttpResponseHeaders c]))))"

definition OnHttpResponseBody ::
  "'cfg host \<Rightarrow> ('cfg, 'v, 'f, 'm) CommonPluginCtx \<Rightarrow> ('cfg, 'v) CommonHttpCtx \<Rightarrow> int \<Rightarrow> bool
     \<Rightarrow> Action \<times> ('cfg, 'v) CommonHttpCtx \<times> 'cfg event list" where
  "OnHttpResponseBody h plugin ctx bodySize endOfStream =
     (case config ctx of
        None \<Rightarrow> (ActionContinue, ctx, [])
      | Some c \<Rightarrow>
          if \<not> needResponseBody ctx then (ActionContinue, ctx, [])
          else if onHttpStreamingResponseBody (vm plugin) \<noteq> None \<and> streamingResponseBody ctx then
            (let (chunk, _) = GetHttpResponseBody h 0 bodySize;
                 (modifiedChunk, calls) =
                    the (onHttpStreamingResponseBody (vm plugin)) h ctx c chunk endOfStream;
                 ctx = apply_calls calls ctx;
                 err = ReplaceHttpResponseBody h modifiedChunk;
                 evs = [HostGetHttpResponseBody 0 bodySize,
                        UserOnHttpStreamingResponseBody c chunk endOfStream,
                        HostReplaceHttpResponseBody modifiedChunk]
             in if err \<noteq> None then
                  (ActionContinue, ctx, evs @ [LogLine LevelWarn ''replace response body chunk failed: %v''])
                else (ActionContinue, ctx, evs))
          else if onHttpResponseBody (vm plugin) \<noteq> None then
            (let ctx = ctx\<lparr>responseBodySize := go_int (intSize h) (responseBodySize ctx + bodySize)\<rparr>
             in if \<not> endOfStream then (ActionPause, ctx, [])
                else
                  (let (body, err) = GetHttpResponseBody h 0 (responseBodySize ctx);
                       evs = [HostGetHttpResponseBody 0 (responseBodySize ctx)]
                   in if err \<noteq> None then
                        (ActionContinue, ctx, evs @ [LogLine LevelWarn ''get response body failed: %v''])
                      else
                        (let (a, calls) = the (onHttpResponseBody (vm plugin)) h ctx c body
                         in (a, apply_calls calls ctx, evs @ [UserOnHttpResponseBody c body]))))
          else (ActionContinue, ctx, []))"

text \<open>\<^verbatim>\<open>OnHttpStreamDone\<close> returns nothing to the host.\<close>

definition OnHttpStreamDone ::
  "'cfg host \<Rightarrow> ('cfg, 'v, 'f, 'm) CommonPluginCtx \<Rightarrow> ('cfg, 'v) CommonHttpCtx
     \<Rightarrow> ('cfg, 'v) CommonHttpCtx \<times> 'cfg event list" where
  "OnHttpStreamDone h plugin ctx =
     (case config ctx of
        None \<Rightarrow> (ctx, [])
      | Some c \<Rightarrow>
          (case onHttpStreamDone (vm plugin) of
             None \<Rightarrow> (ctx, [])
           | Some f \<Rightarrow> (apply_calls (f h ctx c) ctx, [UserOnHttpStreamDone c])))"

subsection \<open>The host delivering the signals of one exchange\<close>

text \<open>
  The host delivers the signals of an exchange one at a time; every signal comes with the
  answers the host gives while it is handled. \<open>deliver\<close> calls the handler of a signal,
  \<open>deliver_all\<close> a sequence of signals in order, collecting the actions returned (none for
  stream-done) and the events.
\<close>

datatype 'cfg signal =
    RequestHeaders "'cfg host" int bool
  | RequestBody "'cfg host" int bool
  | ResponseHeaders "'cfg host" int bool
  | ResponseBody "'cfg host" int bool
  | StreamDone "'cfg host"

fun is_RequestHeaders :: "'cfg signal \<Rightarrow> bool" where
  "is_RequestHeaders (RequestHeaders _ _ _) = True"
| "is_RequestHeaders _ = False"

fun is_StreamDone :: "'cfg signal \<Rightarrow> bool" where
  "is_StreamDone (StreamDone _) = True"
| "is_StreamDone _ = False"

fun deliver ::
  "('cfg, 'v, 'f, 'm) CommonPluginCtx \<Rightarrow> ('cfg, 'v) CommonHttpCtx \<Rightarrow> 'cfg signal
     \<Rightarrow> Action option \<times> ('cfg, 'v) CommonHttpCtx \<times> 'cfg event list" where
  "deliver plugin ctx (RequestHeaders h n eos) =
     (let (a, ctx', evs) = OnHttpRequestHeaders h plugin ctx n eos in (Some a, ctx', evs))"
| "deliver plugin ctx (RequestBody h n eos) =
     (let (a, ctx', evs) = OnHttpRequestBody h plugin ctx n eos in (Some a, ctx', evs))"
| "deliver plugin ctx (ResponseHeaders h n eos) =
     (let (a, ctx', evs) = OnHttpResponseHeaders h plugin ctx n eos in (Some a, ctx', evs))"
| "deliver plugin ctx (ResponseBody h n eos) =
     (let (a, ctx', evs) = OnHttpResponseBody h plugin ctx n eos in (Some a, ctx', evs))"
| "deliver plugin ctx (StreamDone h) =
     (let (ctx', evs) = OnHttpStreamDone h plugin ctx in (None, ctx', evs))"

fun deliver_all ::
  "('cfg, 'v, 'f, 'm) CommonPluginCtx \<Rightarrow> ('cfg, 'v) CommonHttpCtx \<Rightarrow> 'cfg signal list
     \<Rightarrow> Action option list \<times> ('cfg, 'v) CommonHttpCtx \<times> 'cfg event list" where
  "deliver_all plugin ctx [] = ([], ctx, [])"
| "deliver_all plugin ctx (s # ss) =
     (let (a, ctx1, evs1) = deliver plugin ctx s;
          (as, ctx2, evs2) = deliver_all plugin ctx1 ss
      in (a # as, ctx2, evs1 @ evs2))"

section \<open>Plugin-wide registration\<close>

text \<open>
  The options of \<^verbatim>\<open>NewCommonVmCtxWithOptions\<close>; each carries the function value it was
  built from, which may be \<^verbatim>\<open>nil\<close>. \<open>Apply\<close> is the method of the same name.
\<close>

datatype ('cfg, 'v, 'f) CtxOption =
    ParseConfigBy "('cfg, 'f) ParseConfigFunc option"
  | ParseOverrideConfigBy "('cfg, 'f) ParseConfigFunc option" "('cfg, 'f) ParseRuleConfigFunc option"
  | ProcessRequestHeadersBy "('cfg, 'v) onHttpHeadersFunc option"
  | ProcessRequestBodyBy "('cfg, 'v) onHttpBodyFunc option"
  | ProcessStreamingRequestBodyBy "('cfg, 'v) onHttpStreamingBodyFunc option"
  | ProcessResponseHeadersBy "('cfg, 'v) onHttpHeadersFunc option"
  | ProcessResponseBodyBy "('cfg, 'v) onHttpBodyFunc option"
  | ProcessStreamingResponseBodyBy "('cfg, 'v) onHttpStreamingBodyFunc option"
  | ProcessStreamDoneBy "('cfg, 'v) onHttpStreamDoneFunc option"
  | WithLogger "Log option"

fun Apply :: "('cfg, 'v, 'f) CtxOption \<Rightarrow> ('cfg, 'v, 'f) CommonVmCtx \<Rightarrow> ('cfg, 'v, 'f) CommonVmCtx" where
  "Apply (ParseConfigBy f) ctx = ctx\<lparr>parseConfig := f\<rparr>"
| "Apply (ParseOverrideConfigBy f g) ctx = ctx\<lparr>parseConfig := f, parseRuleConfig := g\<rparr>"
| "Apply (ProcessRequestHeadersBy f) ctx = ctx\<lparr>onHttpRequestHeaders := f\<rparr>"
| "Apply (ProcessRequestBodyBy f) ctx = ctx\<lparr>onHttpRequestBody := f\<rparr>"
| "Apply (ProcessStreamingRequestBodyBy f) ctx = ctx\<lparr>onHttpStreamingRequestBody := f\<rparr>"
| "Apply (ProcessResponseHeadersBy f) ctx = ctx\<lparr>onHttpResponseHeaders := f\<rparr>"
| "Apply (ProcessResponseBodyBy f) ctx = ctx\<lparr>onHttpResponseBody := f\<rparr>"
| "Apply (ProcessStreamingResponseBodyBy f) ctx = ctx\<lparr>onHttpStreamingResponseBody := f\<rparr>"
| "Apply (ProcessStreamDoneBy f) ctx = ctx\<lparr>onHttpStreamDone := f\<rparr>"
| "Apply (WithLogger l) ctx = ctx\<lparr>log := l\<rparr>"

fun supplies_parser :: "('cfg, 'v, 'f) CtxOption \<Rightarrow> bool" where
  "supplies_parser (ParseConfigBy f) = True"
| "supplies_parser (ParseOverrideConfigBy f g) = True"
| "supplies_parser _ = False"

definition parseEmptyPluginConfig :: "('cfg, 'f) ParseConfigFunc" where
  "parseEmptyPluginConfig js cfg globalOnTickFuncs = (None, cfg, globalOnTickFuncs)"

text \<open>
  A panic ends the program. The constructor panics with its message after logging it; when
  no logger was installed the call of \<^verbatim>\<open>ctx.log.Critical\<close> is itself a nil dereference.
  An assignment to an entry of a nil map panics too (the export to the log below).
  \<open>sizeofConfig\<close> is \<^verbatim>\<open>unsafe.Sizeof\<close> of the zero value of the configuration type.
\<close>

datatype panic = Panic string | NilPointerDereference | AssignmentToNilMap

definition missing_parseConfig_msg :: string where
  "missing_parseConfig_msg =
     ''the `parseConfig` is missing in NewCommonVmCtx'' @ [CHR 0x27] @ ''s arguments''"

definition NewCommonVmCtxWithOptions ::
  "nat \<Rightarrow> string \<Rightarrow> ('cfg, 'v, 'f) CtxOption list
     \<Rightarrow> (panic \<times> 'cfg event list) + ('cfg, 'v, 'f) CommonVmCtx" where
  "NewCommonVmCtxWithOptions sizeofConfig name options =
     (let ctx = \<lparr>pluginName = name, log = None, hasCustomConfig = True,
                 parseConfig = None, parseRuleConfig = None,
                 onHttpRequestHeaders = None, onHttpRequestBody = None,
                 onHttpStreamingRequestBody = None, onHttpResponseHeaders = None,
                 onHttpResponseBody = None, onHttpStreamingResponseBody = None,
                 onHttpStreamDone = None\<rparr>;
          ctx = fold Apply options ctx
      in if parseConfig ctx = None then
           (if sizeofConfig \<noteq> 0 then
              (case log ctx of
                 None \<Rightarrow> Inl (NilPointerDereference, [])
               | Some _ \<Rightarrow> Inl (Panic missing_parseConfig_msg,
                                [LogLine LevelCritical missing_parseConfig_msg]))
            else Inr (ctx\<lparr>hasCustomConfig := False, parseConfig := Some parseEmptyPluginConfig\<rparr>))
         else Inr ctx)"

definition NewCommonVmCtx ::
  "nat \<Rightarrow> string \<Rightarrow> ('cfg, 'v, 'f) CtxOption list
     \<Rightarrow> (panic \<times> 'cfg event list) + ('cfg, 'v, 'f) CommonVmCtx" where
  "NewCommonVmCtx sizeofConfig name options =
     NewCommonVmCtxWithOptions sizeofConfig name (WithLogger (Some (DefaultLog name)) # options)"

section \<open>Start\<close>



section \<open>The tick scheduler\<close>

text \<open>
  \<^verbatim>\<open>OnTick\<close> reads the clock once for every entry, inside the loop: \<open>now i\<close> is what
  \<^verbatim>\<open>time.Now().UnixMilli()\<close> returns when entry \<open>i\<close> is evaluated. The result is the
  entries after the loop and the callbacks invoked, each with the index of its entry, in
  the order of invocation. The subtraction is an \<^verbatim>\<open>int64\<close> subtraction.
\<close>

fun OnTick_loop ::
  "(nat \<Rightarrow> int) \<Rightarrow> nat \<Rightarrow> 'f TickFuncEntry list \<Rightarrow> 'f TickFuncEntry list \<times> (nat \<times> 'f) list" where
  "OnTick_loop now i [] = ([], [])"
| "OnTick_loop now i (e # es) =
     (let currentTimeStamp = now i;
          (e', called) =
             (if tickPeriod e \<le> int64 (currentTimeStamp - lastExecuted e)
              then (e\<lparr>lastExecuted := currentTimeStamp\<rparr>, [(i, tickFunc e)])
              else (e, []));
          (es', rest) = OnTick_loop now (Suc i) es
      in (e' # es', called @ rest))"

definition OnTick ::
  "(nat \<Rightarrow> int) \<Rightarrow> ('cfg, 'v, 'f, 'm) CommonPluginCtx
     \<Rightarrow> ('cfg, 'v, 'f, 'm) CommonPluginCtx \<times> (nat \<times> 'f) list" where
  "OnTick now ctx =
     (let (es, called) = OnTick_loop now 0 (onTickFuncs ctx)
      in (ctx\<lparr>onTickFuncs := es\<rparr>, called))"




section \<open>Exporting the user attributes\<close>

text \<open>
  The property store of the host: \<^verbatim>\<open>proxywasm.SetProperty\<close> either fails, and stores
  nothing, or stores the value under the path; \<^verbatim>\<open>proxywasm.GetProperty\<close> returns what
  is stored under the path.
\<close>

record prop_host =
  properties :: "string list \<rightharpoonup> bytes"
  SetPropertyError :: "string list \<Rightarrow> bytes \<Rightarrow> error option"

definition GetProperty :: "string list \<Rightarrow> prop_host \<Rightarrow> bytes \<times> error option" where
  "GetProperty path h =
     (case properties h path of None \<Rightarrow> ([], Some ErrorStatusNotFound) | Some v \<Rightarrow> (v, None))"

definition SetProperty :: "string list \<Rightarrow> bytes \<Rightarrow> prop_host \<Rightarrow> error option \<times> prop_host" where
  "SetProperty path v h =
     (case SetPropertyError h path v of
        Some e \<Rightarrow> (Some e, h)
      | None \<Rightarrow> (None, h\<lparr>properties := (properties h)(path \<mapsto> v)\<rparr>))"

text \<open>
  The functions the two exports call that are not in this file. \<^verbatim>\<open>json.Unmarshal\<close> into
  the variable \<^verbatim>\<open>newAttributeMap\<close>, a \<^verbatim>\<open>map[string]interface{}\<close> that is empty at the call:
  it answers with an error, or leaves the variable holding the object decoded, or, for
  the JSON literal \<^verbatim>\<open>null\<close>, sets the variable to the nil map and returns no error
  (\<open>Inr None\<close>). \<^verbatim>\<open>json.Marshal\<close> of such a map, the nil map included (its error is dropped
  by the caller, which then goes on with the empty string). \<^verbatim>\<open>fmt.Sprint\<close>, and the
  helpers \<^verbatim>\<open>unmarshalStr\<close> and \<^verbatim>\<open>marshalStr\<close> of the package.
\<close>

record 'v codec =
  json_Unmarshal :: "string \<Rightarrow> error + (string \<rightharpoonup> 'v) option"
  json_Marshal :: "(string \<rightharpoonup> 'v) option \<Rightarrow> string"
  unmarshalStr :: "string \<Rightarrow> string"
  marshalStr :: "string \<Rightarrow> string"
  Sprint :: "'v \<Rightarrow> string"

definition CustomLogKey :: string where "CustomLogKey = ''custom_log''"
definition AILogKey :: string where "AILogKey = ''ai_log''"

text \<open>
  The loop over \<^verbatim>\<open>ctx.userAttribute\<close> assigns every entry to \<^verbatim>\<open>newAttributeMap\<close>. On a
  map the result is the parsed map overridden by the accumulator, whatever the order. On
  the nil map the first assignment panics, so the loop gets through only when the
  accumulator is empty, and the map stays nil. A panic leaves the function without a
  return value: the result is then the panic and the events before it.
\<close>

definition WriteUserAttributeToLogWithKey ::
  "'v codec \<Rightarrow> string \<Rightarrow> ('cfg, 'v) CommonHttpCtx \<Rightarrow> prop_host
     \<Rightarrow> (panic \<times> 'cfg event list) + (error option \<times> prop_host \<times> 'cfg event list)" where
  "WriteUserAttributeToLogWithKey c key ctx h =
     (let (preMarshalledJsonLogStr, _) = GetProperty [key] h;
          evs = [HostGetProperty [key]];
          parsed = (if preMarshalledJsonLogStr \<noteq> []
                    then json_Unmarshal c
                           (unmarshalStr c ([CHR 0x22] @ preMarshalledJsonLogStr @ [CHR 0x22]))
                    else Inr (Some Map.empty))
      in case parsed of
           Inl err \<Rightarrow>
             Inr (Some err, h,
                  evs @ [LogLine LevelWarn ''Unmarshal failed, will overwrite %s, pre value is: %s''])
         | Inr newAttributeMap \<Rightarrow>
             (case (case newAttributeMap of
                      Some m \<Rightarrow> Inr (Some (m ++ userAttribute ctx))
                    | None \<Rightarrow> if userAttribute ctx = Map.empty then Inr None
                              else Inl AssignmentToNilMap) of
                Inl p \<Rightarrow> Inl (p, evs)
              | Inr newAttributeMap \<Rightarrow>
                  (let jsonStr = json_Marshal c newAttributeMap;
                       marshalledJsonStr = marshalStr c jsonStr;
                       (err, h') = SetProperty [key] marshalledJsonStr h;
                       evs = evs @ [HostSetProperty [key] marshalledJsonStr]
                   in if err \<noteq> None then
                        Inr (err, h', evs @ [LogLine LevelWarn
                               ''failed to set %s in filter state, raw is %s, err is %v''])
                      else Inr (None, h', evs))))"

definition WriteUserAttributeToLog ::
  "'v codec \<Rightarrow> ('cfg, 'v) CommonHttpCtx \<Rightarrow> prop_host
     \<Rightarrow> (panic \<times> 'cfg event list) + (error option \<times> prop_host \<times> 'cfg event list)" where
  "WriteUserAttributeToLog c ctx h = WriteUserAttributeToLogWithKey c CustomLogKey ctx h"



section \<open>Kinds of events and signals\<close>

text \<open>
  The events that move or use the bytes of a body, by direction, and the body signals.
\<close>

fun touches_request_body :: "'cfg event \<Rightarrow> bool" where
  "touches_request_body (HostGetHttpRequestBody _ _) = True"
| "touches_request_body (HostReplaceHttpRequestBody _) = True"
| "touches_request_body (UserOnHttpRequestBody _ _) = True"
| "touches_request_body (UserOnHttpStreamingRequestBody _ _ _) = True"
| "touches_request_body _ = False"

fun touches_response_body :: "'cfg event \<Rightarrow> bool" where
  "touches_response_body (HostGetHttpResponseBody _ _) = True"
| "touches_response_body (HostReplaceHttpResponseBody _) = True"
| "touches_response_body (UserOnHttpResponseBody _ _) = True"
| "touches_response_body (UserOnHttpStreamingResponseBody _ _ _) = True"
| "touches_response_body _ = False"

fun is_RequestBody :: "'cfg signal \<Rightarrow> bool" where
  "is_RequestBody (RequestBody _ _ _) = True"
| "is_RequestBody _ = False"

fun is_ResponseBody :: "'cfg signal \<Rightarrow> bool" where
  "is_ResponseBody (ResponseBody _ _ _) = True"
| "is_ResponseBody _ = False"

section \<open>Example inputs\<close>

text \<open>
  A host, a plugin with every callback registered, and a sequence of signals, used to
  evaluate the statements below on concrete inputs.
\<close>

definition demo_host :: "string host" where
  "demo_host = \<lparr>intSize = 32, GetHttpRequestHeader = (\<lambda>name. (''id-1'', None)),
     GetMatchConfig = (Some ''rule-a'', None), IsBinaryRequestBody = False,
     IsBinaryResponseBody = False,
     GetHttpRequestBody = (\<lambda>start n. (''hello'', None)),
     ReplaceHttpRequestBody = (\<lambda>b. None),
     GetHttpResponseBody = (\<lambda>start n. (''world'', None)),
     ReplaceHttpResponseBody = (\<lambda>b. None)\<rparr>"

definition demo_vm :: "(string, string, nat) CommonVmCtx" where
  "demo_vm = \<lparr>pluginName = ''demo'', log = Some (DefaultLog ''demo''), hasCustomConfig = True,
     parseConfig = Some parseEmptyPluginConfig, parseRuleConfig = None,
     onHttpRequestHeaders = Some (\<lambda>h ctx c. (ActionContinue, [])),
     onHttpRequestBody = Some (\<lambda>h ctx c body. (ActionPause, [CallSetUserAttribute ''req'' body])),
     onHttpStreamingRequestBody = Some (\<lambda>h ctx c chunk eos. (chunk @ ''!'', [])),
     onHttpResponseHeaders = Some (\<lambda>h ctx c. (ActionContinue, [CallSetContext ''seen'' ''yes''])),
     onHttpResponseBody = Some (\<lambda>h ctx c body. (ActionContinue, [CallSetUserAttribute ''resp'' body])),
     onHttpStreamingResponseBody = Some (\<lambda>h ctx c chunk eos. (chunk @ ''?'', [])),
     onHttpStreamDone = Some (\<lambda>h ctx c. [])\<rparr>"

definition demo_plugin :: "(string, string, nat, unit) CommonPluginCtx" where
  "demo_plugin = \<lparr>ruleMatcher = (), vm = demo_vm, onTickFuncs = []\<rparr>"

definition demo_signals :: "string signal list" where
  "demo_signals = [RequestBody demo_host 5 False, RequestBody demo_host 3 True,
     ResponseHeaders demo_host 2 False, ResponseBody demo_host 4 True, StreamDone demo_host]"

definition demo_matched_ctx :: "(string, string) CommonHttpCtx" where
  "demo_matched_ctx =
     fst (snd (OnHttpRequestHeaders demo_host demo_plugin (NewHttpContext demo_plugin 1) 3 False))"

definition demo_options :: "(string, string, nat) CtxOption list" where
  "demo_options = [WithLogger (Some (DefaultLog ''demo'')),
                   ProcessRequestHeadersBy (Some (\<lambda>h ctx c. (ActionContinue, [])))]"

text \<open>
  Modelled from the spec: the helpers \<^verbatim>\<open>unmarshalStr\<close> and \<^verbatim>\<open>marshalStr\<close> of the package
  are not in the file; the prior value is "unescaped once" before it is parsed and the
  merged object is "re-escaped" before it is stored. \<open>demo_marshalStr\<close> escapes the double
  quote and the backslash, \<open>demo_unmarshalStr\<close> takes a quoted string, strips the quotes and
  undoes the escapes, and returns the empty string for anything else. With them, an
  encoder and a decoder for JSON objects with string values, no escapes and no white
  space (the encoder over the keys \<open>a\<close>, \<open>b\<close>, \<open>c\<close>, in this order), which encode the nil
  map as \<^verbatim>\<open>null\<close> and decode \<^verbatim>\<open>null\<close> to the nil map as \<^verbatim>\<open>encoding/json\<close> does, and the
  identity for \<^verbatim>\<open>fmt.Sprint\<close> on strings.
\<close>

definition quoted :: "string \<Rightarrow> string" where
  "quoted s = [CHR 0x22] @ s @ [CHR 0x22]"

definition demo_marshalStr :: "string \<Rightarrow> string" where
  "demo_marshalStr s =
     concat (map (\<lambda>x. if x = CHR 0x22 \<or> x = CHR 0x5C then [CHR 0x5C, x] else [x]) s)"

fun unescape :: "string \<Rightarrow> string option" where
  "unescape [] = Some []"
| "unescape [x] = (if x = CHR 0x5C \<or> x = CHR 0x22 then None else Some [x])"
| "unescape (x # y # ys) =
     (if x = CHR 0x5C then map_option ((#) y) (unescape ys)
      else if x = CHR 0x22 then None
      else map_option ((#) x) (unescape (y # ys)))"

definition demo_unmarshalStr :: "string \<Rightarrow> string" where
  "demo_unmarshalStr q =
     (case q of
        [] \<Rightarrow> []
      | x # xs \<Rightarrow>
          if x = CHR 0x22 \<and> xs \<noteq> [] \<and> last xs = CHR 0x22
          then (case unescape (butlast xs) of Some s \<Rightarrow> s | None \<Rightarrow> [])
          else [])"

fun join_commas :: "string list \<Rightarrow> string" where
  "join_commas [] = []"
| "join_commas [x] = x"
| "join_commas (x # y # zs) = x @ '','' @ join_commas (y # zs)"

definition demo_json_Marshal :: "(string \<rightharpoonup> string) option \<Rightarrow> string" where
  "demo_json_Marshal x =
     (case x of
        None \<Rightarrow> ''null''
      | Some m \<Rightarrow>
          ''{'' @ join_commas
                    (List.map_filter (\<lambda>k. map_option (\<lambda>v. quoted k @ '':'' @ quoted v) (m k))
                       [''a'', ''b'', ''c''])
          @ ''}'')"

fun read_string :: "string \<Rightarrow> (string \<times> string) option" where
  "read_string [] = None"
| "read_string (x # xs) =
     (if x = CHR 0x22 then
        (case dropWhile (\<lambda>y. y \<noteq> CHR 0x22) xs of
           [] \<Rightarrow> None
         | _ # rest \<Rightarrow> Some (takeWhile (\<lambda>y. y \<noteq> CHR 0x22) xs, rest))
      else None)"

fun read_members :: "nat \<Rightarrow> string \<Rightarrow> (string \<rightharpoonup> string) \<Rightarrow> (string \<rightharpoonup> string) option" where
  "read_members 0 s m = None"
| "read_members (Suc n) s m =
     (case read_string s of
        None \<Rightarrow> None
      | Some (k, s1) \<Rightarrow>
          (case s1 of
             [] \<Rightarrow> None
           | x # s2 \<Rightarrow>
               if x \<noteq> CHR '':'' then None
               else (case read_string s2 of
                       None \<Rightarrow> None
                     | Some (v, s3) \<Rightarrow>
                         (case s3 of
                            [] \<Rightarrow> None
                          | y # s4 \<Rightarrow>
                              if y = CHR ''}'' \<and> s4 = [] then Some (m(k \<mapsto> v))
                              else if y = CHR '','' then read_members n s4 (m(k \<mapsto> v))
                              else None))))"

definition demo_json_Unmarshal :: "string \<Rightarrow> error + (string \<rightharpoonup> string) option" where
  "demo_json_Unmarshal s =
     (if s = ''null'' then Inr None
      else if s = ''{}'' then Inr (Some Map.empty)
      else case s of
             [] \<Rightarrow> Inl (OtherError ''unexpected end of JSON input'')
           | x # xs \<Rightarrow>
               if x = CHR ''{'' then
                 (case read_members (length xs) xs Map.empty of
                    None \<Rightarrow> Inl (OtherError ''invalid character'')
                  | Some m \<Rightarrow> Inr (Some m))
               else Inl (OtherError ''invalid character''))"

definition demo_codec :: "string codec" where
  "demo_codec = \<lparr>json_Unmarshal = demo_json_Unmarshal, json_Marshal = demo_json_Marshal,
                 unmarshalStr = demo_unmarshalStr, marshalStr = demo_marshalStr,
                 Sprint = (\<lambda>v. v)\<rparr>"

definition demo_prop_host :: prop_host where
  "demo_prop_host = \<lparr>properties = Map.empty, SetPropertyError = (\<lambda>path v. None)\<rparr>"





definition demo_ctx_a :: "(string, string) CommonHttpCtx" where
  "demo_ctx_a = SetUserAttribute ''a'' ''1'' demo_matched_ctx"

definition demo_ctx_b :: "(string, string) CommonHttpCtx" where
  "demo_ctx_b = SetUserAttribute ''b'' ''2'' demo_matched_ctx"


section \<open>Properties\<close>

subsection \<open>Creation of the exchange context\<close>

text \<open>
  Claim C8. At the creation of an exchange context, for each direction on its own:
  need-body is true exactly when a whole-body or a streaming-body callback is registered
  for the direction, and streaming is true exactly when a streaming-body callback is
  registered for it; the two maps start empty and the two body counters at zero.
\<close>

theorem NewHttpContext_flags:
  "needRequestBody (NewHttpContext ctx cid) =
     (onHttpRequestBody (vm ctx) \<noteq> None \<or> onHttpStreamingRequestBody (vm ctx) \<noteq> None)
   \<and> needResponseBody (NewHttpContext ctx cid) =
     (onHttpResponseBody (vm ctx) \<noteq> None \<or> onHttpStreamingResponseBody (vm ctx) \<noteq> None)
   \<and> streamingRequestBody (NewHttpContext ctx cid) = (onHttpStreamingRequestBody (vm ctx) \<noteq> None)
   \<and> streamingResponseBody (NewHttpContext ctx cid) = (onHttpStreamingResponseBody (vm ctx) \<noteq> None)
   \<and> userContext (NewHttpContext ctx cid) = Map.empty
   \<and> userAttribute (NewHttpContext ctx cid) = Map.empty
   \<and> requestBodySize (NewHttpContext ctx cid) = 0
   \<and> responseBodySize (NewHttpContext ctx cid) = 0
   \<and> config (NewHttpContext ctx cid) = None
   \<and> contextID (NewHttpContext ctx cid) = cid"
  by (simp add: NewHttpContext_def Let_def)

theorem NewHttpContext_flags_witness:
  "needRequestBody (NewHttpContext demo_plugin 7) \<and> needResponseBody (NewHttpContext demo_plugin 7)
   \<and> streamingRequestBody (NewHttpContext demo_plugin 7)
   \<and> streamingResponseBody (NewHttpContext demo_plugin 7)
   \<and> \<not> needRequestBody (NewHttpContext (demo_plugin\<lparr>vm := demo_vm\<lparr>onHttpRequestBody := None, onHttpStreamingRequestBody := None\<rparr>\<rparr>) 7)
   \<and> \<not> streamingResponseBody (NewHttpContext (demo_plugin\<lparr>vm := demo_vm\<lparr>onHttpStreamingResponseBody := None\<rparr>\<rparr>) 7)
   \<and> needResponseBody (NewHttpContext (demo_plugin\<lparr>vm := demo_vm\<lparr>onHttpStreamingResponseBody := None\<rparr>\<rparr>) 7)"
  using NewHttpContext_flags [of demo_plugin 7]
    NewHttpContext_flags [of "demo_plugin\<lparr>vm := demo_vm\<lparr>onHttpRequestBody := None, onHttpStreamingRequestBody := None\<rparr>\<rparr>" 7]
    NewHttpContext_flags [of "demo_plugin\<lparr>vm := demo_vm\<lparr>onHttpStreamingResponseBody := None\<rparr>\<rparr>" 7]
  by (simp add: demo_plugin_def demo_vm_def)

subsection \<open>Unmatched exchanges\<close>

lemma deliver_unmatched:
  "config ctx = None \<Longrightarrow> \<not> is_RequestHeaders s \<Longrightarrow>
   deliver plugin ctx s = ((if is_StreamDone s then None else Some ActionContinue), ctx, [])"
  by (cases s)
     (simp_all add: OnHttpRequestBody_def OnHttpResponseHeaders_def OnHttpResponseBody_def
        OnHttpStreamDone_def)

lemma deliver_all_unmatched:
  "config ctx = None \<Longrightarrow> \<forall>s\<in>set sigs. \<not> is_RequestHeaders s \<Longrightarrow>
   deliver_all plugin ctx sigs =
     (map (\<lambda>s. if is_StreamDone s then None else Some ActionContinue) sigs, ctx, [])"
  by (induction sigs) (simp_all add: deliver_unmatched)

lemma OnHttpRequestHeaders_unmatched:
  "snd (GetMatchConfig h) \<noteq> None \<or> fst (GetMatchConfig h) = None \<Longrightarrow>
   OnHttpRequestHeaders h plugin ctx n eos =
     (ActionContinue, ctx,
      [HostGetHttpRequestHeader ''x-request-id'',
       HostSetProperty [''x_request_id''] (fst (GetHttpRequestHeader h ''x-request-id''))]
      @ (if snd (GetMatchConfig h) \<noteq> None
         then [LogLine LevelError ''get match config failed, err:%v''] else []))"
  by (cases "GetMatchConfig h"; cases "GetHttpRequestHeader h ''x-request-id''")
     (auto simp add: OnHttpRequestHeaders_def Let_def)

text \<open>
  Claim C1. When the request-header phase resolves no configuration (the matcher returns
  an error, or no match), the configuration of the exchange stays absent, the handler and
  every later request-body, response-headers and response-body signal return continue
  (stream-done returns nothing to the host), and no user callback is invoked, whatever
  signals follow and whatever callbacks are registered.
\<close>

theorem unmatched_exchange_is_pass_through:
  assumes "config ctx = None"
    and "snd (GetMatchConfig h) \<noteq> None \<or> fst (GetMatchConfig h) = None"
    and "\<forall>s\<in>set sigs. \<not> is_RequestHeaders s"
  shows "case OnHttpRequestHeaders h plugin ctx n eos of (a, ctx1, evs1) \<Rightarrow>
           a = ActionContinue \<and> config ctx1 = None \<and> filter is_user_callback evs1 = [] \<and>
           (case deliver_all plugin ctx1 sigs of (acts, ctx2, evs2) \<Rightarrow>
              config ctx2 = None
              \<and> acts = map (\<lambda>s. if is_StreamDone s then None else Some ActionContinue) sigs
              \<and> filter is_user_callback evs2 = [])"
  using assms
  by (simp add: OnHttpRequestHeaders_unmatched deliver_all_unmatched)

theorem unmatched_exchange_is_pass_through_witness:
  "config (NewHttpContext demo_plugin 1) = None
   \<and> GetMatchConfig (demo_host\<lparr>GetMatchConfig := (None, Some (OtherError ''no route''))\<rparr>)
       = (None, Some (OtherError ''no route''))
   \<and> filter is_RequestHeaders demo_signals = []
   \<and> (case OnHttpRequestHeaders (demo_host\<lparr>GetMatchConfig := (None, Some (OtherError ''no route''))\<rparr>)
              demo_plugin (NewHttpContext demo_plugin 1) 3 False of
        (a, ctx1, evs1) \<Rightarrow>
           a = ActionContinue \<and> config ctx1 = None \<and> filter is_user_callback evs1 = [] \<and>
           (case deliver_all demo_plugin ctx1 demo_signals of (acts, ctx2, evs2) \<Rightarrow>
              config ctx2 = None
              \<and> acts = [Some ActionContinue, Some ActionContinue, Some ActionContinue,
                        Some ActionContinue, None]
              \<and> filter is_user_callback evs2 = []))"
proof -
  let ?h = "demo_host\<lparr>GetMatchConfig := (None, Some (OtherError ''no route''))\<rparr>"
  have a: "config (NewHttpContext demo_plugin 1) = None"
    by (simp add: NewHttpContext_def Let_def)
  have b: "snd (GetMatchConfig ?h) \<noteq> None \<or> fst (GetMatchConfig ?h) = None"
    by simp
  have c: "\<forall>s\<in>set demo_signals. \<not> is_RequestHeaders s"
    by (simp add: demo_signals_def)
  show ?thesis
    using a b c unmatched_exchange_is_pass_through [OF a b c, of demo_plugin 3 False]
    by (auto simp add: demo_signals_def split: prod.splits)
qed

subsection \<open>Whole-body buffering\<close>

lemma OnHttpRequestBody_buffered_pause:
  assumes "config ctx = Some c" "needRequestBody ctx"
    and "onHttpStreamingRequestBody (vm plugin) = None \<or> \<not> streamingRequestBody ctx"
    and "onHttpRequestBody (vm plugin) = Some f"
  shows "OnHttpRequestBody h plugin ctx n False =
           (ActionPause, ctx\<lparr>requestBodySize := go_int (intSize h) (requestBodySize ctx + n)\<rparr>, [])"
  using assms by (auto simp add: OnHttpRequestBody_def Let_def)

lemma OnHttpRequestBody_buffered_end:
  assumes "config ctx = Some c" "needRequestBody ctx"
    and "onHttpStreamingRequestBody (vm plugin) = None \<or> \<not> streamingRequestBody ctx"
    and "onHttpRequestBody (vm plugin) = Some f"
    and "sz = go_int (intSize h) (requestBodySize ctx + n)"
    and "GetHttpRequestBody h 0 sz = (body, err)"
  shows "OnHttpRequestBody h plugin ctx n True =
           (if err = None
            then (fst (f h (ctx\<lparr>requestBodySize := sz\<rparr>) c body),
                  apply_calls (snd (f h (ctx\<lparr>requestBodySize := sz\<rparr>) c body))
                    (ctx\<lparr>requestBodySize := sz\<rparr>),
                  [HostGetHttpRequestBody 0 sz, UserOnHttpRequestBody c body])
            else (ActionContinue, ctx\<lparr>requestBodySize := sz\<rparr>,
                  [HostGetHttpRequestBody 0 sz,
                   LogLine LevelWarn ''get request body failed: %v'']))"
  using assms by (auto simp add: OnHttpRequestBody_def Let_def split: prod.splits)




lemma demo_matched_ctx_eq:
  "demo_matched_ctx = \<lparr>config = Some ''rule-a'', needRequestBody = True, needResponseBody = True,
      streamingRequestBody = True, streamingResponseBody = True, requestBodySize = 0,
      responseBodySize = 0, contextID = 1, userContext = Map.empty, userAttribute = Map.empty\<rparr>"
  by (simp add: demo_matched_ctx_def OnHttpRequestHeaders_def NewHttpContext_def demo_host_def
      demo_plugin_def demo_vm_def apply_calls_def Let_def)



text \<open>
  Over a whole stream: the signals before the end of the stream only add to the counter,
  and the last one fetches the sum (wrapped as Go's \<^verbatim>\<open>int\<close> wraps) and invokes the callback,
  so that the callback is invoked once for the stream.
\<close>

lemma deliver_all_append:
  "deliver_all plugin ctx (xs @ ys) =
     (case deliver_all plugin ctx xs of (as1, ctx1, evs1) \<Rightarrow>
        case deliver_all plugin ctx1 ys of (as2, ctx2, evs2) \<Rightarrow> (as1 @ as2, ctx2, evs1 @ evs2))"
  by (induction xs arbitrary: ctx) (simp_all add: case_prod_beta)

lemma buffered_request_body_pauses:
  assumes "config ctx = Some c" "needRequestBody ctx"
    and "onHttpStreamingRequestBody (vm plugin) = None \<or> \<not> streamingRequestBody ctx"
    and "onHttpRequestBody (vm plugin) = Some f"
  shows "deliver_all plugin ctx (map (\<lambda>n. RequestBody h n False) ns) =
           (map (\<lambda>n. Some ActionPause) ns,
            ctx\<lparr>requestBodySize := foldl (\<lambda>a n. go_int (intSize h) (a + n)) (requestBodySize ctx) ns\<rparr>,
            [])"
  using assms
proof (induction ns arbitrary: ctx)
  case Nil
  then show ?case by simp
next
  case (Cons n ns)
  let ?ctx1 = "ctx\<lparr>requestBodySize := go_int (intSize h) (requestBodySize ctx + n)\<rparr>"
  have 1: "OnHttpRequestBody h plugin ctx n False = (ActionPause, ?ctx1, [])"
    using Cons.prems by (rule OnHttpRequestBody_buffered_pause)
  have "deliver_all plugin ?ctx1 (map (\<lambda>n. RequestBody h n False) ns) =
           (map (\<lambda>n. Some ActionPause) ns,
            ?ctx1\<lparr>requestBodySize := foldl (\<lambda>a n. go_int (intSize h) (a + n)) (requestBodySize ?ctx1) ns\<rparr>,
            [])"
    using Cons.prems by (intro Cons.IH) simp_all
  with 1 show ?case by simp
qed

lemma buffered_request_body_whole_stream:
  assumes "config ctx = Some c" "needRequestBody ctx"
    and "onHttpStreamingRequestBody (vm plugin) = None \<or> \<not> streamingRequestBody ctx"
    and "onHttpRequestBody (vm plugin) = Some f"
    and "sz = foldl (\<lambda>a n. go_int (intSize h) (a + n)) (requestBodySize ctx) (ns @ [n])"
    and "GetHttpRequestBody h 0 sz = (body, None)"
  shows "deliver_all plugin ctx (map (\<lambda>n. RequestBody h n False) ns @ [RequestBody h n True]) =
           (map (\<lambda>n. Some ActionPause) ns @ [Some (fst (f h (ctx\<lparr>requestBodySize := sz\<rparr>) c body))],
            apply_calls (snd (f h (ctx\<lparr>requestBodySize := sz\<rparr>) c body)) (ctx\<lparr>requestBodySize := sz\<rparr>),
            [HostGetHttpRequestBody 0 sz, UserOnHttpRequestBody c body])"
proof -
  let ?s = "foldl (\<lambda>a n. go_int (intSize h) (a + n)) (requestBodySize ctx) ns"
  let ?ctx1 = "ctx\<lparr>requestBodySize := ?s\<rparr>"
  have sz: "sz = go_int (intSize h) (requestBodySize ?ctx1 + n)"
    using assms(5) by simp
  have "OnHttpRequestBody h plugin ?ctx1 n True =
          (if (None :: error option) = None
            then (fst (f h (?ctx1\<lparr>requestBodySize := sz\<rparr>) c body),
                  apply_calls (snd (f h (?ctx1\<lparr>requestBodySize := sz\<rparr>) c body))
                    (?ctx1\<lparr>requestBodySize := sz\<rparr>),
                  [HostGetHttpRequestBody 0 sz, UserOnHttpRequestBody c body])
            else (ActionContinue, ?ctx1\<lparr>requestBodySize := sz\<rparr>,
                  [HostGetHttpRequestBody 0 sz,
                   LogLine LevelWarn ''get request body failed: %v'']))"
    using assms(1-4,6) sz
    by (intro OnHttpRequestBody_buffered_end [where c = c and f = f]) simp_all
  then show ?thesis
    using buffered_request_body_pauses [OF assms(1-4), of h ns]
    by (simp add: deliver_all_append)
qed

subsection \<open>Streaming\<close>



subsection \<open>The binary guard\<close>

lemma apply_call_fields:
  "config (apply_call x ctx) = config ctx"
  "needRequestBody (apply_call x ctx) \<Longrightarrow> needRequestBody ctx"
  "needResponseBody (apply_call x ctx) \<Longrightarrow> needResponseBody ctx"
  by (cases x; simp add: SetContext_def SetUserAttribute_def DontReadRequestBody_def
      DontReadResponseBody_def BufferRequestBody_def BufferResponseBody_def)+

lemma apply_calls_config [simp]: "config (apply_calls cs ctx) = config ctx"
  unfolding apply_calls_def by (induction cs arbitrary: ctx) (simp_all add: apply_call_fields)

lemma apply_calls_needRequestBody [simp]:
  "\<not> needRequestBody ctx \<Longrightarrow> \<not> needRequestBody (apply_calls cs ctx)"
  unfolding apply_calls_def
  by (induction cs arbitrary: ctx) (auto dest: apply_call_fields(2))

lemma apply_calls_needResponseBody [simp]:
  "\<not> needResponseBody ctx \<Longrightarrow> \<not> needResponseBody (apply_calls cs ctx)"
  unfolding apply_calls_def
  by (induction cs arbitrary: ctx) (auto dest: apply_call_fields(3))

lemma OnHttpResponseBody_not_needed:
  "\<not> needResponseBody ctx \<Longrightarrow> OnHttpResponseBody h plugin ctx n eos = (ActionContinue, ctx, [])"
  by (simp add: OnHttpResponseBody_def split: option.splits)

lemma OnHttpRequestBody_not_needed:
  "\<not> needRequestBody ctx \<Longrightarrow> OnHttpRequestBody h plugin ctx n eos = (ActionContinue, ctx, [])"
  by (simp add: OnHttpRequestBody_def split: option.splits)

lemma deliver_response_body_not_needed:
  assumes "\<not> needResponseBody ctx" and "deliver plugin ctx s = (a, ctx', evs)"
  shows "\<not> needResponseBody ctx' \<and> filter touches_response_body evs = []
         \<and> (is_ResponseBody s \<longrightarrow> a = Some ActionContinue)"
proof (cases s)
  case (RequestHeaders h n eos)
  with assms show ?thesis
    by (auto simp add: OnHttpRequestHeaders_def Let_def split: prod.splits option.splits if_splits)
next
  case (RequestBody h n eos)
  with assms show ?thesis
    by (auto simp add: OnHttpRequestBody_def Let_def split: prod.splits option.splits if_splits)
next
  case (ResponseHeaders h n eos)
  with assms show ?thesis
    by (auto simp add: OnHttpResponseHeaders_def Let_def split: prod.splits option.splits if_splits)
next
  case (ResponseBody h n eos)
  with assms show ?thesis
    by (auto simp add: OnHttpResponseBody_not_needed)
next
  case (StreamDone h)
  with assms show ?thesis
    by (auto simp add: OnHttpStreamDone_def Let_def split: prod.splits option.splits if_splits)
qed

lemma deliver_request_body_not_needed:
  assumes "\<not> needRequestBody ctx" and "deliver plugin ctx s = (a, ctx', evs)"
  shows "\<not> needRequestBody ctx' \<and> filter touches_request_body evs = []
         \<and> (is_RequestBody s \<longrightarrow> a = Some ActionContinue)"
proof (cases s)
  case (RequestHeaders h n eos)
  with assms show ?thesis
    by (auto simp add: OnHttpRequestHeaders_def Let_def split: prod.splits option.splits if_splits)
next
  case (RequestBody h n eos)
  with assms show ?thesis
    by (auto simp add: OnHttpRequestBody_not_needed)
next
  case (ResponseHeaders h n eos)
  with assms show ?thesis
    by (auto simp add: OnHttpResponseHeaders_def Let_def split: prod.splits option.splits if_splits)
next
  case (ResponseBody h n eos)
  with assms show ?thesis
    by (auto simp add: OnHttpResponseBody_def Let_def split: prod.splits option.splits if_splits)
next
  case (StreamDone h)
  with assms show ?thesis
    by (auto simp add: OnHttpStreamDone_def Let_def split: prod.splits option.splits if_splits)
qed

lemma deliver_all_response_body_not_needed:
  "\<not> needResponseBody ctx \<Longrightarrow> deliver_all plugin ctx sigs = (acts, ctx', evs) \<Longrightarrow>
   \<not> needResponseBody ctx' \<and> filter touches_response_body evs = []
   \<and> list_all2 (\<lambda>s a. is_ResponseBody s \<longrightarrow> a = Some ActionContinue) sigs acts"
proof (induction sigs arbitrary: ctx acts evs ctx')
  case Nil
  then show ?case by simp
next
  case (Cons s ss)
  obtain a ctx1 evs1 where d: "deliver plugin ctx s = (a, ctx1, evs1)"
    by (cases "deliver plugin ctx s") auto
  obtain as ctx2 evs2 where r: "deliver_all plugin ctx1 ss = (as, ctx2, evs2)"
    by (cases "deliver_all plugin ctx1 ss") auto
  from deliver_response_body_not_needed [OF Cons.prems(1) d]
  have 1: "\<not> needResponseBody ctx1" "filter touches_response_body evs1 = []"
    "is_ResponseBody s \<longrightarrow> a = Some ActionContinue" by simp_all
  from Cons.IH [OF 1(1) r] have 2: "\<not> needResponseBody ctx2"
    "filter touches_response_body evs2 = []"
    "list_all2 (\<lambda>s a. is_ResponseBody s \<longrightarrow> a = Some ActionContinue) ss as" by simp_all
  from Cons.prems(2) d r have "acts = a # as" "ctx' = ctx2" "evs = evs1 @ evs2" by simp_all
  with 1 2 show ?case by simp
qed

lemma deliver_all_request_body_not_needed:
  "\<not> needRequestBody ctx \<Longrightarrow> deliver_all plugin ctx sigs = (acts, ctx', evs) \<Longrightarrow>
   \<not> needRequestBody ctx' \<and> filter touches_request_body evs = []
   \<and> list_all2 (\<lambda>s a. is_RequestBody s \<longrightarrow> a = Some ActionContinue) sigs acts"
proof (induction sigs arbitrary: ctx acts evs ctx')
  case Nil
  then show ?case by simp
next
  case (Cons s ss)
  obtain a ctx1 evs1 where d: "deliver plugin ctx s = (a, ctx1, evs1)"
    by (cases "deliver plugin ctx s") auto
  obtain as ctx2 evs2 where r: "deliver_all plugin ctx1 ss = (as, ctx2, evs2)"
    by (cases "deliver_all plugin ctx1 ss") auto
  from deliver_request_body_not_needed [OF Cons.prems(1) d]
  have 1: "\<not> needRequestBody ctx1" "filter touches_request_body evs1 = []"
    "is_RequestBody s \<longrightarrow> a = Some ActionContinue" by simp_all
  from Cons.IH [OF 1(1) r] have 2: "\<not> needRequestBody ctx2"
    "filter touches_request_body evs2 = []"
    "list_all2 (\<lambda>s a. is_RequestBody s \<longrightarrow> a = Some ActionContinue) ss as" by simp_all
  from Cons.prems(2) d r have "acts = a # as" "ctx' = ctx2" "evs = evs1 @ evs2" by simp_all
  with 1 2 show ?case by simp
qed

lemma OnHttpResponseHeaders_binary:
  "config ctx = Some c \<Longrightarrow> IsBinaryResponseBody h \<Longrightarrow>
   \<not> needResponseBody (fst (snd (OnHttpResponseHeaders h plugin ctx n eos)))"
  by (auto simp add: OnHttpResponseHeaders_def Let_def split: prod.splits option.splits)

lemma OnHttpRequestHeaders_binary:
  "GetMatchConfig h = (Some c, None) \<Longrightarrow> IsBinaryRequestBody h \<Longrightarrow>
   config (fst (snd (OnHttpRequestHeaders h plugin ctx n eos))) = Some c
   \<and> \<not> needRequestBody (fst (snd (OnHttpRequestHeaders h plugin ctx n eos)))"
  by (auto simp add: OnHttpRequestHeaders_def Let_def split: prod.splits option.splits)

text \<open>
  Claim C7. When the response is classified binary at the response-header phase of a
  matched exchange, need-response-body is false after the handler, whatever the
  response-header callback does, and it stays false over every later sequence of signals:
  no event of those signals touches the response body (no fetch, no replacement, no
  whole-body or streaming callback), every response-body signal among them returns
  continue, and so does any further one, with no event and no change. The request
  direction has the same guard at the request-header phase after a successful match.
\<close>

theorem binary_body_is_never_read:
  "(config ctx = Some c \<and> IsBinaryResponseBody h \<longrightarrow>
      (case OnHttpResponseHeaders h plugin ctx n eos of (a, ctx1, evs1) \<Rightarrow>
         \<not> needResponseBody ctx1 \<and>
         (case deliver_all plugin ctx1 sigs of (acts, ctx2, evs2) \<Rightarrow>
            \<not> needResponseBody ctx2
            \<and> filter touches_response_body evs2 = []
            \<and> list_all2 (\<lambda>s a. is_ResponseBody s \<longrightarrow> a = Some ActionContinue) sigs acts
            \<and> OnHttpResponseBody h' plugin ctx2 n' eos' = (ActionContinue, ctx2, []))))
   \<and> (GetMatchConfig h = (Some c, None) \<and> IsBinaryRequestBody h \<longrightarrow>
      (case OnHttpRequestHeaders h plugin ctx n eos of (a, ctx1, evs1) \<Rightarrow>
         config ctx1 = Some c \<and> \<not> needRequestBody ctx1 \<and>
         (case deliver_all plugin ctx1 sigs of (acts, ctx2, evs2) \<Rightarrow>
            \<not> needRequestBody ctx2
            \<and> filter touches_request_body evs2 = []
            \<and> list_all2 (\<lambda>s a. is_RequestBody s \<longrightarrow> a = Some ActionContinue) sigs acts
            \<and> OnHttpRequestBody h' plugin ctx2 n' eos' = (ActionContinue, ctx2, []))))"
proof (intro conjI impI)
  assume a: "config ctx = Some c \<and> IsBinaryResponseBody h"
  obtain x ctx1 evs1 where r1: "OnHttpResponseHeaders h plugin ctx n eos = (x, ctx1, evs1)"
    by (cases "OnHttpResponseHeaders h plugin ctx n eos") auto
  obtain acts ctx2 evs2 where r2: "deliver_all plugin ctx1 sigs = (acts, ctx2, evs2)"
    by (cases "deliver_all plugin ctx1 sigs") auto
  from a r1 OnHttpResponseHeaders_binary [of ctx c h plugin n eos]
  have n1: "\<not> needResponseBody ctx1" by simp
  from deliver_all_response_body_not_needed [OF n1 r2] r1 r2 n1
  show "case OnHttpResponseHeaders h plugin ctx n eos of (a, ctx1, evs1) \<Rightarrow>
         \<not> needResponseBody ctx1 \<and>
         (case deliver_all plugin ctx1 sigs of (acts, ctx2, evs2) \<Rightarrow>
            \<not> needResponseBody ctx2
            \<and> filter touches_response_body evs2 = []
            \<and> list_all2 (\<lambda>s a. is_ResponseBody s \<longrightarrow> a = Some ActionContinue) sigs acts
            \<and> OnHttpResponseBody h' plugin ctx2 n' eos' = (ActionContinue, ctx2, []))"
    by (simp add: OnHttpResponseBody_not_needed)
next
  assume a: "GetMatchConfig h = (Some c, None) \<and> IsBinaryRequestBody h"
  obtain x ctx1 evs1 where r1: "OnHttpRequestHeaders h plugin ctx n eos = (x, ctx1, evs1)"
    by (cases "OnHttpRequestHeaders h plugin ctx n eos") auto
  obtain acts ctx2 evs2 where r2: "deliver_all plugin ctx1 sigs = (acts, ctx2, evs2)"
    by (cases "deliver_all plugin ctx1 sigs") auto
  from a r1 OnHttpRequestHeaders_binary [of h c plugin ctx n eos]
  have n1: "config ctx1 = Some c" "\<not> needRequestBody ctx1" by simp_all
  from deliver_all_request_body_not_needed [OF n1(2) r2] r1 r2 n1
  show "case OnHttpRequestHeaders h plugin ctx n eos of (a, ctx1, evs1) \<Rightarrow>
         config ctx1 = Some c \<and> \<not> needRequestBody ctx1 \<and>
         (case deliver_all plugin ctx1 sigs of (acts, ctx2, evs2) \<Rightarrow>
            \<not> needRequestBody ctx2
            \<and> filter touches_request_body evs2 = []
            \<and> list_all2 (\<lambda>s a. is_RequestBody s \<longrightarrow> a = Some ActionContinue) sigs acts
            \<and> OnHttpRequestBody h' plugin ctx2 n' eos' = (ActionContinue, ctx2, []))"
    by (simp add: OnHttpRequestBody_not_needed)
qed

theorem binary_body_is_never_read_witness:
  "config demo_matched_ctx = Some ''rule-a''
   \<and> IsBinaryResponseBody (demo_host\<lparr>IsBinaryResponseBody := True\<rparr>)
   \<and> (case OnHttpResponseHeaders (demo_host\<lparr>IsBinaryResponseBody := True\<rparr>) demo_plugin
              demo_matched_ctx 2 False of
        (a, ctx1, evs1) \<Rightarrow>
          \<not> needResponseBody ctx1 \<and>
          (case deliver_all demo_plugin ctx1 demo_signals of (acts, ctx2, evs2) \<Rightarrow>
             \<not> needResponseBody ctx2
             \<and> filter touches_response_body evs2 = []
             \<and> OnHttpResponseBody demo_host demo_plugin ctx2 4 True = (ActionContinue, ctx2, [])))
   \<and> GetMatchConfig (demo_host\<lparr>IsBinaryRequestBody := True\<rparr>) = (Some ''rule-a'', None)
   \<and> IsBinaryRequestBody (demo_host\<lparr>IsBinaryRequestBody := True\<rparr>)
   \<and> (case OnHttpRequestHeaders (demo_host\<lparr>IsBinaryRequestBody := True\<rparr>) demo_plugin
              (NewHttpContext demo_plugin 1) 3 False of
        (a, ctx1, evs1) \<Rightarrow>
          config ctx1 = Some ''rule-a'' \<and> \<not> needRequestBody ctx1 \<and>
          (case deliver_all demo_plugin ctx1 demo_signals of (acts, ctx2, evs2) \<Rightarrow>
             \<not> needRequestBody ctx2
             \<and> filter touches_request_body evs2 = []
             \<and> OnHttpRequestBody demo_host demo_plugin ctx2 5 True = (ActionContinue, ctx2, [])))"
proof -
  have a: "config demo_matched_ctx = Some ''rule-a''"
    by (simp add: demo_matched_ctx_eq)
  have b: "GetMatchConfig (demo_host\<lparr>IsBinaryRequestBody := True\<rparr>) = (Some ''rule-a'', None)"
    by (simp add: demo_host_def)
  show ?thesis
    using a b
      binary_body_is_never_read [where ctx = demo_matched_ctx and c = "''rule-a''"
        and h = "demo_host\<lparr>IsBinaryResponseBody := True\<rparr>" and plugin = demo_plugin
        and n = 2 and eos = False and sigs = demo_signals and h' = demo_host and n' = 4
        and eos' = True]
      binary_body_is_never_read [where ctx = "NewHttpContext demo_plugin 1" and c = "''rule-a''"
        and h = "demo_host\<lparr>IsBinaryRequestBody := True\<rparr>" and plugin = demo_plugin
        and n = 3 and eos = False and sigs = demo_signals and h' = demo_host and n' = 5
        and eos' = True]
    by (simp add: case_prod_beta)
qed

subsection \<open>Construction of the plugin-wide context\<close>

lemma fold_Apply_no_parser:
  "\<forall>opt\<in>set options. \<not> supplies_parser opt \<Longrightarrow>
   parseConfig (fold Apply options ctx) = parseConfig ctx
   \<and> hasCustomConfig (fold Apply options ctx) = hasCustomConfig ctx"
proof (induction options arbitrary: ctx)
  case Nil
  then show ?case by simp
next
  case (Cons opt options)
  then have "\<not> supplies_parser opt" by simp
  then have "parseConfig (Apply opt ctx) = parseConfig ctx
             \<and> hasCustomConfig (Apply opt ctx) = hasCustomConfig ctx"
    by (cases opt) simp_all
  with Cons show ?case by simp
qed

text \<open>
  Claim C9. When no option supplies a configuration parser: if the configuration type
  has a size other than zero, \<^verbatim>\<open>NewCommonVmCtxWithOptions\<close> panics (the extension cannot
  run); if the type has size zero, construction succeeds, the has-custom-config flag is
  cleared, and the parser is the no-op \<^verbatim>\<open>parseEmptyPluginConfig\<close>.
\<close>

theorem construction_without_parser:
  assumes "\<forall>opt\<in>set options. \<not> supplies_parser opt"
  shows "(sizeofConfig \<noteq> 0 \<longrightarrow> isl (NewCommonVmCtxWithOptions sizeofConfig name options))
       \<and> (sizeofConfig = 0 \<longrightarrow>
            (case NewCommonVmCtxWithOptions sizeofConfig name options of
               Inl p \<Rightarrow> False
             | Inr ctx \<Rightarrow> \<not> hasCustomConfig ctx
                           \<and> parseConfig ctx = Some parseEmptyPluginConfig))"
  using fold_Apply_no_parser [OF assms]
  by (auto simp add: NewCommonVmCtxWithOptions_def Let_def split: option.splits)

theorem construction_without_parser_witness:
  "filter supplies_parser demo_options = []
   \<and> NewCommonVmCtxWithOptions 8 ''demo'' demo_options
       = Inl (Panic missing_parseConfig_msg, [LogLine LevelCritical missing_parseConfig_msg])
   \<and> isl (NewCommonVmCtxWithOptions 8 ''demo'' demo_options)
   \<and> (case NewCommonVmCtxWithOptions 0 ''demo'' demo_options of
         Inl p \<Rightarrow> False
       | Inr ctx \<Rightarrow> \<not> hasCustomConfig ctx \<and> parseConfig ctx = Some parseEmptyPluginConfig)"
proof -
  have a: "\<forall>opt\<in>set demo_options. \<not> supplies_parser opt"
    by (simp add: demo_options_def)
  have b: "NewCommonVmCtxWithOptions 8 ''demo'' demo_options
       = Inl (Panic missing_parseConfig_msg, [LogLine LevelCritical missing_parseConfig_msg])"
    by (simp add: NewCommonVmCtxWithOptions_def demo_options_def)
  show ?thesis
    using b construction_without_parser [OF a, of 8 "''demo''"]
      construction_without_parser [OF a, of 0 "''demo''"]
    by (simp add: demo_options_def)
qed

subsection \<open>Export to trace\<close>


lemma SetProperty_fst [simp]:
  "fst (SetProperty path v h) = SetPropertyError h path v"
  by (simp add: SetProperty_def split: option.splits)






subsection \<open>Start\<close>





subsection \<open>Export to log\<close>

lemma WriteUserAttributeToLogWithKey_no_prior:
  assumes "properties h [key] = None \<or> properties h [key] = Some []"
    and "v = marshalStr c (json_Marshal c (Some (userAttribute ctx)))"
  shows "WriteUserAttributeToLogWithKey c key ctx h =
           Inr (case SetPropertyError h [key] v of
                  None \<Rightarrow> (None, h\<lparr>properties := (properties h)([key] \<mapsto> v)\<rparr>,
                            [HostGetProperty [key], HostSetProperty [key] v])
                | Some e \<Rightarrow> (Some e, h,
                            [HostGetProperty [key], HostSetProperty [key] v,
                             LogLine LevelWarn ''failed to set %s in filter state, raw is %s, err is %v'']))"
  using assms
  by (auto simp add: WriteUserAttributeToLogWithKey_def GetProperty_def SetProperty_def Let_def
      split: option.splits)

lemma WriteUserAttributeToLogWithKey_parse_failure:
  assumes "properties h [key] = Some s" and "s \<noteq> []"
    and "json_Unmarshal c (unmarshalStr c ([CHR 0x22] @ s @ [CHR 0x22])) = Inl e"
  shows "WriteUserAttributeToLogWithKey c key ctx h =
           Inr (Some e, h,
                [HostGetProperty [key],
                 LogLine LevelWarn ''Unmarshal failed, will overwrite %s, pre value is: %s''])"
  using assms
  by (simp add: WriteUserAttributeToLogWithKey_def GetProperty_def Let_def)

lemma WriteUserAttributeToLogWithKey_parsed:
  assumes "properties h [key] = Some s" and "s \<noteq> []"
    and "json_Unmarshal c (unmarshalStr c ([CHR 0x22] @ s @ [CHR 0x22])) = Inr (Some m)"
    and "v = marshalStr c (json_Marshal c (Some (m ++ userAttribute ctx)))"
  shows "WriteUserAttributeToLogWithKey c key ctx h =
           Inr (case SetPropertyError h [key] v of
                  None \<Rightarrow> (None, h\<lparr>properties := (properties h)([key] \<mapsto> v)\<rparr>,
                            [HostGetProperty [key], HostSetProperty [key] v])
                | Some e \<Rightarrow> (Some e, h,
                            [HostGetProperty [key], HostSetProperty [key] v,
                             LogLine LevelWarn ''failed to set %s in filter state, raw is %s, err is %v'']))"
  using assms
  by (auto simp add: WriteUserAttributeToLogWithKey_def GetProperty_def SetProperty_def Let_def
      split: option.splits)

lemma WriteUserAttributeToLogWithKey_nil_map_panic:
  assumes "properties h [key] = Some s" and "s \<noteq> []"
    and "json_Unmarshal c (unmarshalStr c ([CHR 0x22] @ s @ [CHR 0x22])) = Inr None"
    and "userAttribute ctx \<noteq> Map.empty"
  shows "WriteUserAttributeToLogWithKey c key ctx h =
           Inl (AssignmentToNilMap, [HostGetProperty [key]])"
  using assms
  by (simp add: WriteUserAttributeToLogWithKey_def GetProperty_def Let_def)

lemma WriteUserAttributeToLogWithKey_nil_map_stored:
  assumes "properties h [key] = Some s" and "s \<noteq> []"
    and "json_Unmarshal c (unmarshalStr c ([CHR 0x22] @ s @ [CHR 0x22])) = Inr None"
    and "userAttribute ctx = Map.empty"
    and "v = marshalStr c (json_Marshal c None)"
  shows "WriteUserAttributeToLogWithKey c key ctx h =
           Inr (case SetPropertyError h [key] v of
                  None \<Rightarrow> (None, h\<lparr>properties := (properties h)([key] \<mapsto> v)\<rparr>,
                            [HostGetProperty [key], HostSetProperty [key] v])
                | Some e \<Rightarrow> (Some e, h,
                            [HostGetProperty [key], HostSetProperty [key] v,
                             LogLine LevelWarn ''failed to set %s in filter state, raw is %s, err is %v'']))"
  using assms
  by (auto simp add: WriteUserAttributeToLogWithKey_def GetProperty_def SetProperty_def Let_def
      split: option.splits)

lemma map_add_twice: "(m ++ a) ++ a = m ++ a"
  by (rule ext) (simp add: map_add_def split: option.splits)

text \<open>
  The export on a prior value that is absent, empty, malformed or an object. A prior value that is absent or empty counts as the empty object; any
  other is put in quotes, unescaped once and parsed. When the parse fails the error is
  returned, nothing is written and the store of the host is as before. When it gives an
  object, the accumulator is laid over it, its values winning on the keys both have, and
  the result is serialized, escaped and stored under the same key. Hence, when the stored
  value reads back as the object that was written (and is not the empty string), a second
  export of the same accumulator stores the same value again, and two exports into an
  absent property store the second accumulator laid over the first: \<open>{"a":"1"}\<close> then
  \<open>{"b":"2"}\<close> give \<open>{"a":"1","b":"2"}\<close>.
\<close>

lemma export_to_log_merges:
  fixes c :: "'v codec" and ctx ctxB :: "('cfg, 'v) CommonHttpCtx" and h :: prop_host
    and key s :: string
  defines "enc \<equiv> \<lambda>m. marshalStr c (json_Marshal c (Some m))"
    and "dec \<equiv> \<lambda>s. json_Unmarshal c (unmarshalStr c ([CHR 0x22] @ s @ [CHR 0x22]))"
    and "acc \<equiv> userAttribute ctx"
  defines "prior_is \<equiv> \<lambda>m. ((properties h [key] = None \<or> properties h [key] = Some []) \<and> m = Map.empty)
                            \<or> (properties h [key] = Some s \<and> s \<noteq> [] \<and> dec s = Inr (Some m))"
  shows "(prior_is m \<and> SetPropertyError h [key] (enc (m ++ acc)) = None \<longrightarrow>
            WriteUserAttributeToLogWithKey c key ctx h =
              Inr (None, h\<lparr>properties := (properties h)([key] \<mapsto> enc (m ++ acc))\<rparr>,
                   [HostGetProperty [key], HostSetProperty [key] (enc (m ++ acc)) :: 'cfg event])
            \<and> (\<forall>k. (m ++ acc) k = (case acc k of Some v \<Rightarrow> Some v | None \<Rightarrow> m k)))
       \<and> (properties h [key] = Some s \<and> s \<noteq> [] \<and> dec s = Inl e \<longrightarrow>
            WriteUserAttributeToLogWithKey c key ctx h =
              Inr (Some e, h,
                   [HostGetProperty [key],
                    LogLine LevelWarn ''Unmarshal failed, will overwrite %s, pre value is: %s''
                      :: 'cfg event]))
       \<and> (prior_is m \<and> SetPropertyError h [key] (enc (m ++ acc)) = None
           \<and> enc (m ++ acc) \<noteq> [] \<and> dec (enc (m ++ acc)) = Inr (Some (m ++ acc)) \<longrightarrow>
            WriteUserAttributeToLogWithKey c key ctx
               (h\<lparr>properties := (properties h)([key] \<mapsto> enc (m ++ acc))\<rparr>) =
              Inr (None, h\<lparr>properties := (properties h)([key] \<mapsto> enc (m ++ acc))\<rparr>,
                   [HostGetProperty [key], HostSetProperty [key] (enc (m ++ acc)) :: 'cfg event]))
       \<and> ((properties h [key] = None \<or> properties h [key] = Some [])
           \<and> SetPropertyError h [key] (enc acc) = None
           \<and> SetPropertyError h [key] (enc (acc ++ userAttribute ctxB)) = None
           \<and> enc acc \<noteq> [] \<and> dec (enc acc) = Inr (Some acc) \<longrightarrow>
            (case WriteUserAttributeToLogWithKey c key ctx h of
               Inl p \<Rightarrow> False
             | Inr (e1, h1, evs1 :: 'cfg event list) \<Rightarrow>
                 e1 = None \<and>
                 (case WriteUserAttributeToLogWithKey c key ctxB h1 of
                    Inl p \<Rightarrow> False
                  | Inr (e2, h2, evs2 :: 'cfg event list) \<Rightarrow>
                      e2 = None
                      \<and> properties h2 [key] = Some (enc (acc ++ userAttribute ctxB)))))"
proof (intro conjI impI allI)
  assume a: "prior_is m \<and> SetPropertyError h [key] (enc (m ++ acc)) = None"
  show "WriteUserAttributeToLogWithKey c key ctx h =
              Inr (None, h\<lparr>properties := (properties h)([key] \<mapsto> enc (m ++ acc))\<rparr>,
                   [HostGetProperty [key], HostSetProperty [key] (enc (m ++ acc)) :: 'cfg event])"
    using a
      WriteUserAttributeToLogWithKey_no_prior [of h key "enc acc" c ctx]
      WriteUserAttributeToLogWithKey_parsed [of h key s c m "enc (m ++ acc)" ctx]
    unfolding prior_is_def enc_def dec_def acc_def by auto
next
  fix k
  show "(m ++ acc) k = (case acc k of Some v \<Rightarrow> Some v | None \<Rightarrow> m k)"
    by (simp add: map_add_def split: option.splits)
next
  assume "properties h [key] = Some s \<and> s \<noteq> [] \<and> dec s = Inl e"
  then show "WriteUserAttributeToLogWithKey c key ctx h =
              Inr (Some e, h,
                   [HostGetProperty [key],
                    LogLine LevelWarn ''Unmarshal failed, will overwrite %s, pre value is: %s''
                      :: 'cfg event])"
    using WriteUserAttributeToLogWithKey_parse_failure [of h key s c e ctx]
    unfolding dec_def by simp
next
  let ?v = "enc (m ++ acc)"
  let ?h1 = "h\<lparr>properties := (properties h)([key] \<mapsto> ?v)\<rparr>"
  assume a: "prior_is m \<and> SetPropertyError h [key] ?v = None
           \<and> ?v \<noteq> [] \<and> dec ?v = Inr (Some (m ++ acc))"
  have "WriteUserAttributeToLogWithKey c key ctx ?h1 =
          Inr (case SetPropertyError ?h1 [key] ?v of
              None \<Rightarrow> (None, ?h1\<lparr>properties := (properties ?h1)([key] \<mapsto> ?v)\<rparr>,
                        [HostGetProperty [key], HostSetProperty [key] ?v :: 'cfg event])
            | Some e \<Rightarrow> (Some e, ?h1,
                        [HostGetProperty [key], HostSetProperty [key] ?v,
                         LogLine LevelWarn ''failed to set %s in filter state, raw is %s, err is %v'']))"
    using a
    by (intro WriteUserAttributeToLogWithKey_parsed [where s = ?v and m = "m ++ acc"])
       (simp_all add: dec_def enc_def acc_def map_add_twice)
  with a show "WriteUserAttributeToLogWithKey c key ctx ?h1 =
              Inr (None, ?h1, [HostGetProperty [key], HostSetProperty [key] ?v :: 'cfg event])"
    by simp
next
  let ?acc2 = "userAttribute ctxB"
  let ?h1 = "h\<lparr>properties := (properties h)([key] \<mapsto> enc acc)\<rparr>"
  assume a: "(properties h [key] = None \<or> properties h [key] = Some [])
           \<and> SetPropertyError h [key] (enc acc) = None
           \<and> SetPropertyError h [key] (enc (acc ++ ?acc2)) = None
           \<and> enc acc \<noteq> [] \<and> dec (enc acc) = Inr (Some acc)"
  have 1: "WriteUserAttributeToLogWithKey c key ctx h =
             Inr (None, ?h1, [HostGetProperty [key], HostSetProperty [key] (enc acc) :: 'cfg event])"
    using a WriteUserAttributeToLogWithKey_no_prior [of h key "enc acc" c ctx]
    unfolding enc_def acc_def by auto
  have "WriteUserAttributeToLogWithKey c key ctxB ?h1 =
          Inr (case SetPropertyError ?h1 [key] (enc (acc ++ ?acc2)) of
              None \<Rightarrow> (None, ?h1\<lparr>properties := (properties ?h1)([key] \<mapsto> enc (acc ++ ?acc2))\<rparr>,
                        [HostGetProperty [key], HostSetProperty [key] (enc (acc ++ ?acc2)) :: 'cfg event])
            | Some e \<Rightarrow> (Some e, ?h1,
                        [HostGetProperty [key], HostSetProperty [key] (enc (acc ++ ?acc2)),
                         LogLine LevelWarn ''failed to set %s in filter state, raw is %s, err is %v'']))"
    using a
    by (intro WriteUserAttributeToLogWithKey_parsed [where s = "enc acc" and m = acc])
       (simp_all add: dec_def enc_def)
  with a have 2: "WriteUserAttributeToLogWithKey c key ctxB ?h1 =
          Inr (None, ?h1\<lparr>properties := (properties ?h1)([key] \<mapsto> enc (acc ++ ?acc2))\<rparr>,
           [HostGetProperty [key], HostSetProperty [key] (enc (acc ++ ?acc2)) :: 'cfg event])"
    by simp
  show "case WriteUserAttributeToLogWithKey c key ctx h of
               Inl p \<Rightarrow> False
             | Inr (e1, h1, evs1 :: 'cfg event list) \<Rightarrow>
                 e1 = None \<and>
                 (case WriteUserAttributeToLogWithKey c key ctxB h1 of
                    Inl p \<Rightarrow> False
                  | Inr (e2, h2, evs2 :: 'cfg event list) \<Rightarrow>
                      e2 = None
                      \<and> properties h2 [key] = Some (enc (acc ++ userAttribute ctxB)))"
    unfolding 1 by (simp add: 2)
qed


lemma demo_attrs:
  "userAttribute demo_ctx_a = [''a'' \<mapsto> ''1'']"
  "userAttribute demo_ctx_b = [''b'' \<mapsto> ''2'']"
  "userAttribute demo_matched_ctx = Map.empty"
  by (simp_all add: demo_ctx_a_def demo_ctx_b_def SetUserAttribute_def demo_matched_ctx_eq)

lemma demo_codec_fields:
  "json_Unmarshal demo_codec = demo_json_Unmarshal"
  "json_Marshal demo_codec = demo_json_Marshal"
  "unmarshalStr demo_codec = demo_unmarshalStr"
  "marshalStr demo_codec = demo_marshalStr"
  by (simp_all add: demo_codec_def)

lemma demo_marshal_a: \<open>demo_json_Marshal (Some [''a'' \<mapsto> ''1'']) = ''{"a":"1"}''\<close>
  by (simp add: demo_json_Marshal_def quoted_def List.map_filter_simps)

lemma demo_marshal_ab:
  \<open>demo_json_Marshal (Some [''a'' \<mapsto> ''1'', ''b'' \<mapsto> ''2'']) = ''{"a":"1","b":"2"}''\<close>
  by (simp add: demo_json_Marshal_def quoted_def List.map_filter_simps)

lemma demo_escaped_nonempty: \<open>demo_marshalStr ''{"a":"1"}'' \<noteq> []\<close>
  by (simp add: demo_marshalStr_def)

lemma demo_roundtrip_a:
  \<open>demo_json_Unmarshal (demo_unmarshalStr (CHR 0x22 # demo_marshalStr ''{"a":"1"}'' @ [CHR 0x22]))
     = Inr (Some [''a'' \<mapsto> ''1''])\<close>
  by (simp add: demo_json_Unmarshal_def demo_unmarshalStr_def demo_marshalStr_def)

lemma demo_unescape_ab:
  \<open>demo_unmarshalStr (quoted (demo_marshalStr ''{"a":"1","b":"2"}'')) = ''{"a":"1","b":"2"}''\<close>
  by (simp add: demo_unmarshalStr_def demo_marshalStr_def quoted_def)

lemma demo_malformed:
  \<open>demo_json_Unmarshal (demo_unmarshalStr ''"not json"'') = Inl (OtherError ''invalid character'')\<close>
  by (simp add: demo_json_Unmarshal_def demo_unmarshalStr_def)

lemma demo_null:
  \<open>demo_json_Unmarshal (demo_unmarshalStr ''"null"'') = Inr None\<close>
  \<open>demo_marshalStr (demo_json_Marshal None) = ''null''\<close>
  by (simp_all add: demo_json_Unmarshal_def demo_unmarshalStr_def demo_json_Marshal_def
      demo_marshalStr_def)

lemma export_to_log_merges_example:
  \<open>(case WriteUserAttributeToLogWithKey demo_codec ''custom_log'' demo_ctx_a demo_prop_host of
      Inl p \<Rightarrow> False
    | Inr (e1, h1, evs1 :: string event list) \<Rightarrow>
        e1 = None \<and>
        (case WriteUserAttributeToLogWithKey demo_codec ''custom_log'' demo_ctx_b h1 of
           Inl p \<Rightarrow> False
         | Inr (e2, h2, evs2 :: string event list) \<Rightarrow>
             e2 = None
             \<and> properties h2 [''custom_log''] = Some (demo_marshalStr ''{"a":"1","b":"2"}'')))
   \<and> demo_unmarshalStr (quoted (demo_marshalStr ''{"a":"1","b":"2"}'')) = ''{"a":"1","b":"2"}''
   \<and> WriteUserAttributeToLogWithKey demo_codec ''custom_log'' demo_ctx_a
        (demo_prop_host\<lparr>properties := (properties demo_prop_host)
            ([''custom_log''] \<mapsto> demo_marshalStr ''{"a":"1"}'')\<rparr>)
       = Inr (None,
          demo_prop_host\<lparr>properties := (properties demo_prop_host)
            ([''custom_log''] \<mapsto> demo_marshalStr ''{"a":"1"}'')\<rparr>,
          [HostGetProperty [''custom_log''],
           HostSetProperty [''custom_log''] (demo_marshalStr ''{"a":"1"}'') :: string event])
   \<and> WriteUserAttributeToLogWithKey demo_codec ''custom_log'' demo_ctx_a
        (demo_prop_host\<lparr>properties := Map.empty([''custom_log''] \<mapsto> ''not json'')\<rparr>)
       = Inr (Some (OtherError ''invalid character''),
          demo_prop_host\<lparr>properties := Map.empty([''custom_log''] \<mapsto> ''not json'')\<rparr>,
          [HostGetProperty [''custom_log''],
           LogLine LevelWarn ''Unmarshal failed, will overwrite %s, pre value is: %s''
             :: string event])\<close>
proof -
  have p: "properties demo_prop_host [''custom_log''] = None"
    "SetPropertyError demo_prop_host = (\<lambda>path v. None)"
    by (simp_all add: demo_prop_host_def)
  note facts = p demo_attrs demo_codec_fields demo_marshal_a demo_marshal_ab
    demo_escaped_nonempty demo_roundtrip_a demo_unescape_ab demo_malformed
  note t1 = export_to_log_merges [where c = demo_codec and key = "''custom_log''"
        and ctx = demo_ctx_a and ctxB = demo_ctx_b and h = demo_prop_host and m = Map.empty
        and s = "[]" and e = "OtherError ''invalid character''"]
  note t2 = export_to_log_merges [where c = demo_codec and key = "''custom_log''"
        and ctx = demo_ctx_a and ctxB = demo_ctx_b
        and h = "demo_prop_host\<lparr>properties := Map.empty([''custom_log''] \<mapsto> ''not json'')\<rparr>"
        and m = Map.empty and s = "''not json''" and e = "OtherError ''invalid character''"]
  have enc_ab: \<open>marshalStr demo_codec (json_Marshal demo_codec
                     (Some (userAttribute demo_ctx_a ++ userAttribute demo_ctx_b)))
                   = demo_marshalStr ''{"a":"1","b":"2"}''\<close>
    by (simp add: facts)
  have r: \<open>case WriteUserAttributeToLogWithKey demo_codec ''custom_log'' demo_ctx_a demo_prop_host of
      Inl p \<Rightarrow> False
    | Inr (e1, h1, evs1 :: string event list) \<Rightarrow>
        e1 = None \<and>
        (case WriteUserAttributeToLogWithKey demo_codec ''custom_log'' demo_ctx_b h1 of
           Inl p \<Rightarrow> False
         | Inr (e2, h2, evs2 :: string event list) \<Rightarrow>
             e2 = None
             \<and> properties h2 [''custom_log'']
                 = Some (marshalStr demo_codec (json_Marshal demo_codec
                     (Some (userAttribute demo_ctx_a ++ userAttribute demo_ctx_b)))))\<close>
    using t1 [THEN conjunct2, THEN conjunct2, THEN conjunct2] by (simp add: facts)
  have a: \<open>case WriteUserAttributeToLogWithKey demo_codec ''custom_log'' demo_ctx_a demo_prop_host of
      Inl p \<Rightarrow> False
    | Inr (e1, h1, evs1 :: string event list) \<Rightarrow>
        e1 = None \<and>
        (case WriteUserAttributeToLogWithKey demo_codec ''custom_log'' demo_ctx_b h1 of
           Inl p \<Rightarrow> False
         | Inr (e2, h2, evs2 :: string event list) \<Rightarrow>
             e2 = None
             \<and> properties h2 [''custom_log''] = Some (demo_marshalStr ''{"a":"1","b":"2"}''))\<close>
    using r unfolding enc_ab .
  have b: \<open>WriteUserAttributeToLogWithKey demo_codec ''custom_log'' demo_ctx_a
        (demo_prop_host\<lparr>properties := (properties demo_prop_host)
            ([''custom_log''] \<mapsto> demo_marshalStr ''{"a":"1"}'')\<rparr>)
       = Inr (None,
          demo_prop_host\<lparr>properties := (properties demo_prop_host)
            ([''custom_log''] \<mapsto> demo_marshalStr ''{"a":"1"}'')\<rparr>,
          [HostGetProperty [''custom_log''],
           HostSetProperty [''custom_log''] (demo_marshalStr ''{"a":"1"}'') :: string event])\<close>
    using t1 [THEN conjunct2, THEN conjunct2, THEN conjunct1] by (simp add: facts)
  have c: \<open>WriteUserAttributeToLogWithKey demo_codec ''custom_log'' demo_ctx_a
        (demo_prop_host\<lparr>properties := Map.empty([''custom_log''] \<mapsto> ''not json'')\<rparr>)
       = Inr (Some (OtherError ''invalid character''),
          demo_prop_host\<lparr>properties := Map.empty([''custom_log''] \<mapsto> ''not json'')\<rparr>,
          [HostGetProperty [''custom_log''],
           LogLine LevelWarn ''Unmarshal failed, will overwrite %s, pre value is: %s''
             :: string event])\<close>
    using t2 [THEN conjunct2, THEN conjunct1] by (simp add: facts)
  from a b c demo_unescape_ab show ?thesis by blast
qed

text \<open>
  Claim C4 says that every prior value that is not absent or empty either fails to parse,
  and then an error is returned and nothing written, or parses, and then the accumulator
  is laid over it and the result stored. The code misses a case. A prior value that
  unescapes to the JSON literal \<^verbatim>\<open>null\<close> parses without error and leaves
  \<^verbatim>\<open>newAttributeMap\<close> nil. With an accumulator that is not empty, the first assignment
  \<^verbatim>\<open>newAttributeMap[k] = v\<close> then panics: no error is returned, nothing is written, and the
  export never takes place. With an empty accumulator the nil map is serialized and
  \<^verbatim>\<open>null\<close> stored again.
\<close>

theorem export_to_log_nil_map:
  assumes "properties h [key] = Some s" and "s \<noteq> []"
    and "json_Unmarshal c (unmarshalStr c ([CHR 0x22] @ s @ [CHR 0x22])) = Inr None"
  shows "(userAttribute ctx k = Some v \<longrightarrow>
            WriteUserAttributeToLogWithKey c key ctx h =
              Inl (AssignmentToNilMap, [HostGetProperty [key] :: 'cfg event]))
       \<and> (userAttribute ctx = Map.empty \<longrightarrow>
            WriteUserAttributeToLogWithKey c key ctx h =
              Inr (case SetPropertyError h [key] (marshalStr c (json_Marshal c None)) of
                     None \<Rightarrow>
                       (None,
                        h\<lparr>properties := (properties h)
                             ([key] \<mapsto> marshalStr c (json_Marshal c None))\<rparr>,
                        [HostGetProperty [key],
                         HostSetProperty [key] (marshalStr c (json_Marshal c None))
                           :: 'cfg event])
                   | Some e \<Rightarrow>
                       (Some e, h,
                        [HostGetProperty [key],
                         HostSetProperty [key] (marshalStr c (json_Marshal c None)),
                         LogLine LevelWarn
                           ''failed to set %s in filter state, raw is %s, err is %v''])))"
proof -
  have "userAttribute ctx k = Some v \<Longrightarrow> userAttribute ctx \<noteq> Map.empty"
    by auto
  then show ?thesis
    using WriteUserAttributeToLogWithKey_nil_map_panic [OF assms, of ctx]
      WriteUserAttributeToLogWithKey_nil_map_stored [OF assms, of ctx, OF _ refl]
    by blast
qed

theorem export_to_log_nil_map_witness:
  \<open>properties (demo_prop_host\<lparr>properties := Map.empty([''custom_log''] \<mapsto> ''null'')\<rparr>)
       [''custom_log''] = Some ''null''
   \<and> json_Unmarshal demo_codec (unmarshalStr demo_codec ''"null"'') = Inr None
   \<and> userAttribute demo_ctx_a ''a'' = Some ''1''
   \<and> WriteUserAttributeToLogWithKey demo_codec ''custom_log'' demo_ctx_a
        (demo_prop_host\<lparr>properties := Map.empty([''custom_log''] \<mapsto> ''null'')\<rparr>)
       = Inl (AssignmentToNilMap, [HostGetProperty [''custom_log''] :: string event])
   \<and> userAttribute demo_matched_ctx = Map.empty
   \<and> WriteUserAttributeToLogWithKey demo_codec ''custom_log'' demo_matched_ctx
        (demo_prop_host\<lparr>properties := Map.empty([''custom_log''] \<mapsto> ''null'')\<rparr>)
       = Inr (None,
              demo_prop_host\<lparr>properties := Map.empty([''custom_log''] \<mapsto> ''null'')\<rparr>,
              [HostGetProperty [''custom_log''],
               HostSetProperty [''custom_log''] ''null'' :: string event])\<close>
proof -
  let ?h = "demo_prop_host\<lparr>properties := Map.empty([''custom_log''] \<mapsto> ''null'')\<rparr>"
  have a: "properties ?h [''custom_log''] = Some ''null''" by simp
  have b: "''null'' \<noteq> ([] :: string)" by simp
  have c: \<open>json_Unmarshal demo_codec (unmarshalStr demo_codec ([CHR 0x22] @ ''null'' @ [CHR 0x22]))
             = Inr None\<close>
    using demo_null(1) by (simp add: demo_codec_fields)
  have e: "SetPropertyError ?h = (\<lambda>path v. None)"
    by (simp add: demo_prop_host_def)
  note t = export_to_log_nil_map [OF a b c]
  have 1: "WriteUserAttributeToLogWithKey demo_codec ''custom_log'' demo_ctx_a ?h
             = Inl (AssignmentToNilMap, [HostGetProperty [''custom_log''] :: string event])"
    using t [where ctx = demo_ctx_a and k = "''a''" and v = "''1''"] demo_attrs by simp
  have 2: "WriteUserAttributeToLogWithKey demo_codec ''custom_log'' demo_matched_ctx ?h
       = Inr (None, ?h,
              [HostGetProperty [''custom_log''],
               HostSetProperty [''custom_log''] ''null'' :: string event])"
    using t [where ctx = demo_matched_ctx and k = "''a''" and v = "''1''"] demo_attrs e
    by (simp add: demo_codec_fields demo_null demo_prop_host_def)
  from a c 1 2 demo_attrs show ?thesis by simp
qed

subsection \<open>The tick scheduler\<close>

lemma OnTick_loop_enumerate:
  "OnTick_loop now i es =
     (map (\<lambda>(j, e). if tickPeriod e \<le> int64 (now j - lastExecuted e)
                      then e\<lparr>lastExecuted := now j\<rparr> else e) (enumerate i es),
      concat (map (\<lambda>(j, e). if tickPeriod e \<le> int64 (now j - lastExecuted e)
                               then [(j, tickFunc e)] else []) (enumerate i es)))"
  by (induction es arbitrary: i) (simp_all add: Let_def)






text \<open>
  One tick, for any entries and any clock: every entry is evaluated, in the order of
  registration, against the time read at its evaluation.
\<close>

lemma OnTick_every_entry_in_order:
  "OnTick now ctx =
     (ctx\<lparr>onTickFuncs :=
            map (\<lambda>(j, e). if tickPeriod e \<le> int64 (now j - lastExecuted e)
                            then e\<lparr>lastExecuted := now j\<rparr> else e)
                (enumerate 0 (onTickFuncs ctx))\<rparr>,
      concat (map (\<lambda>(j, e). if tickPeriod e \<le> int64 (now j - lastExecuted e)
                               then [(j, tickFunc e)] else [])
                  (enumerate 0 (onTickFuncs ctx))))"
  by (simp add: OnTick_def OnTick_loop_enumerate)












end
